theory Spec2Isabelle
  imports Complex_Main "HOL-Library.Sublist" "HOL-Library.Log_Nat"
begin

section \<open>JavaScript values used by the server\<close>

text \<open>
  Strings are sequences of code units, modelled as \<^typ>\<open>string\<close>: the strings
  whose code units are all below 256, a \<^typ>\<open>char\<close> being the code unit of that
  number (U+0000 to U+00FF). \<open>length\<close> is the number of code units, as
  \<open>String.prototype.length\<close> is.

  On these code units \<open>String.prototype.toLowerCase\<close> adds 32 to the capitals
  \<open>A\<close>..\<open>Z\<close> (65 to 90) and to the capitals U+00C0 to U+00DE (192 to 222) other than
  the multiplication sign U+00D7 (215), and leaves every other unit alone.
\<close>

definition toLowerChar :: "char \<Rightarrow> char" where
  "toLowerChar c =
     (let n = (of_char c :: nat) in
      if (65 \<le> n \<and> n \<le> 90) \<or> (192 \<le> n \<and> n \<le> 222 \<and> n \<noteq> 215)
      then char_of (n + 32)
      else c)"

definition toLowerCase :: "string \<Rightarrow> string" where
  "toLowerCase s = map toLowerChar s"

text \<open>
  The white space that \<open>trim\<close> strips and that the class \<open>\s\<close> of a regular expression
  matches: among the code units below 256 these are tab, line feed, vertical tab, form
  feed, carriage return, space and the no-break space U+00A0.
\<close>

definition is_space :: "char \<Rightarrow> bool" where
  "is_space c =
     (c \<in> set [CHR 0x09, CHR 0x0A, CHR 0x0B, CHR 0x0C, CHR 0x0D, CHR 0x20, CHR 0xA0])"

definition trim :: "string \<Rightarrow> string" where
  "trim s = rev (dropWhile is_space (rev (dropWhile is_space s)))"

text \<open>\<open>s.includes(t)\<close>: \<open>t\<close> occurs in \<open>s\<close> as a contiguous block.\<close>

fun str_includes :: "string \<Rightarrow> string \<Rightarrow> bool" where
  "str_includes [] t = (t = [])"
| "str_includes (c # cs) t = (prefix t (c # cs) \<or> str_includes cs t)"

text \<open>
  A value of type \<open>string | undefined | null\<close> is a \<^typ>\<open>string option\<close>; it is truthy
  when it is a non-empty string.
\<close>

definition truthy :: "string option \<Rightarrow> bool" where
  "truthy v = (case v of None \<Rightarrow> False | Some s \<Rightarrow> s \<noteq> [])"

text \<open>
  A number is a double: a finite one is given by its value, a real (the sign of zero is
  not kept), and there are \<open>NaN\<close> and the two infinities.
\<close>

datatype js_number = Num real | NaN | PosInf | NegInf

text \<open>
  Rounding a real to the nearest double, ties to the even significand, as every
  arithmetic operation and every decimal literal does. \<open>binade a\<close> is the exponent
  \<open>e\<close> with \<open>2^e \<le> a < 2^(e+1)\<close>, and \<open>-1022\<close> for the subnormal numbers and zero;
  the doubles of that binade are the multiples of \<open>2^(e-52)\<close>. The result is left as
  a real also where the machine overflows to an infinity, beyond \<open>2^1024\<close>.
\<close>

definition binade :: "real \<Rightarrow> int" where
  "binade a = max (- 1022) (bitlen \<lfloor>a * 2 ^ 1074\<rfloor> - 1075)"

definition round_half_even :: "real \<Rightarrow> int" where
  "round_half_even q =
     (let n = \<lfloor>q\<rfloor>; r = q - of_int n in
      if r < 1 / 2 then n
      else if 1 / 2 < r then n + 1
      else if even n then n else n + 1)"

definition to_double :: "real \<Rightarrow> real" where
  "to_double x =
     (let a = \<bar>x\<bar>; u = 2 powi (binade a - 52)
      in sgn x * (of_int (round_half_even (a / u)) * u))"

text \<open>The product \<open>x * y\<close> of two finite doubles.\<close>

definition js_times :: "real \<Rightarrow> real \<Rightarrow> real" where
  "js_times x y = to_double (x * y)"

text \<open>
  \<open>Math.round\<close> of a finite double: the nearest integer, a half upwards. It is exact,
  the result being a double again.
\<close>

definition Math_round :: "real \<Rightarrow> int" where
  "Math_round x = \<lfloor>x + 1 / 2\<rfloor>"


section \<open>Types and errors (\<open>types/index.ts\<close>)\<close>

datatype engine_tag = Tag_macos | Tag_kokoro | Tag_coqui

datatype quality_tier = Q_fast | Q_balanced | Q_high

datatype gender_tag = G_male | G_female | G_neutral

datatype audio_format = F_wav | F_mp3 | F_m4a | F_aiff

record Voice =
  v_id :: string
  v_name :: string
  v_language :: string
  v_gender :: "gender_tag option"
  v_description :: "string option"
  v_engine :: engine_tag
  v_quality :: quality_tier

datatype engine_choice = E_macos | E_kokoro | E_coqui | E_auto

record SynthesisRequest =
  r_text :: string
  r_voice :: "string option"
  r_engine :: "engine_choice option"
  r_outputFormat :: "audio_format option"
  r_speed :: "js_number option"
  r_quality :: "quality_tier option"

record AudioMetadata =
  m_voice :: string
  m_engine :: string
  m_textLength :: nat
  m_synthesisTime :: int

record AudioResult =
  a_filePath :: string
  a_format :: string
  a_duration :: "js_number option"
  a_size :: nat
  a_metadata :: AudioMetadata

datatype ErrorCodes =
    ENGINE_NOT_AVAILABLE
  | ENGINE_NOT_INITIALIZED
  | ENGINE_INITIALIZATION_FAILED
  | VOICE_NOT_FOUND
  | TEXT_TOO_LONG
  | SYNTHESIS_FAILED
  | FILE_OPERATION_FAILED
  | FILE_NOT_FOUND
  | INVALID_PARAMETERS
  | TIMEOUT
  | MEMORY_LIMIT_EXCEEDED
  | PLAYBACK_FAILED

text \<open>
  What a call can throw. \<open>TTSError code engine\<close> is the class \<open>TTSError\<close> with its code
  and its optional engine tag (the message text and the wrapped cause are left out);
  \<open>PlainError\<close> is any other \<open>Error\<close> (a rejected subprocess promise, a failed file
  operation); \<open>TypeError\<close> is the property read on \<open>undefined\<close>; \<open>UnhandledErrorEvent\<close>
  is an \<open>'error'\<close> event emitted by a child process that has no listener for it: Node
  throws it in the event loop of the host, where no \<open>catch\<close> of the caller sees it.
\<close>

datatype exn =
    TTSError ErrorCodes "string option"
  | PlainError
  | TypeError
  | UnhandledErrorEvent


section \<open>The router (\<open>tools/synthesize-text.ts\<close>)\<close>

datatype engine_pref = P_macos | P_kokoro | P_auto

text \<open>
  The registry is a \<open>Map<string, TTSEngine>\<close>. An engine object is always truthy, so
  \<open>engines.get(k) || null\<close> is the lookup itself.
\<close>

definition selectEngine :: "engine_pref \<Rightarrow> (string \<rightharpoonup> 'e) \<Rightarrow> 'e option" where
  "selectEngine preference engines =
     (case preference of
        P_macos \<Rightarrow> engines ''macos''
      | P_kokoro \<Rightarrow> engines ''kokoro''
      | P_auto \<Rightarrow>
          (case engines ''kokoro'' of
             Some e \<Rightarrow> Some e
           | None \<Rightarrow> engines ''macos''))"

text \<open>
  Lines 70 to 76 of \<open>synthesizeTextHandler\<close>: the selected engine, or the
  \<open>TTSError\<close> thrown when \<open>selectEngine\<close> returned \<open>null\<close> (it carries no engine tag).
\<close>

definition handler_select :: "engine_pref \<Rightarrow> (string \<rightharpoonup> 'e) \<Rightarrow> exn + 'e" where
  "handler_select preference engines =
     (case selectEngine preference engines of
        None \<Rightarrow> Inl (TTSError ENGINE_NOT_AVAILABLE None)
      | Some e \<Rightarrow> Inr e)"


section \<open>The speed mapping of the macOS engine\<close>

text \<open>
  \<open>calculateRate(speed?)\<close>: \<open>!speed\<close> holds for \<open>undefined\<close>, for \<open>0\<close> and for \<open>NaN\<close>.
  Of an infinite speed the product and its rounding are that infinity again, which
  \<open>Math.min\<close> and \<open>Math.max\<close> bring to 400 or to 80; so they do with a finite product
  that overflows, as the clamp here does with its rounded real. The rate that results
  is always an integer.
\<close>

definition calculateRate :: "js_number option \<Rightarrow> int" where
  "calculateRate speed =
     (case speed of
        None \<Rightarrow> 200
      | Some NaN \<Rightarrow> 200
      | Some PosInf \<Rightarrow> 400
      | Some NegInf \<Rightarrow> 80
      | Some (Num s) \<Rightarrow>
          if s = 0 then 200
          else let rate = Math_round (js_times s 200) in max 80 (min 400 rate))"

text \<open>
  The formula of the specification, \<open>clamp(round(speed * 200), 80, 400)\<close>, for
  comparison; its product is the product of doubles.
\<close>

definition spec_rate :: "real \<Rightarrow> int" where
  "spec_rate s = max 80 (min 400 (Math_round (js_times s 200)))"


section \<open>The playback controller (\<open>tools/audio-player.ts\<close>)\<close>

text \<open>
  A child process is identified by a number. Every operation returns what it answers
  (or throws), the signals it sent and the new state of the singleton.
\<close>

datatype signal = SIGSTOP | SIGCONT | SIGTERM

record AudioPlayer =
  currentProcess :: "nat option"
  isPaused :: bool
  currentFile :: "string option"
  mostRecentFile :: "string option"

record PlayReply =
  p_message :: string
  p_status :: string
  p_file :: "string option"

record PlayerStatus =
  s_status :: string
  s_file :: "string option"
  s_isPaused :: bool

definition new_AudioPlayer :: AudioPlayer where
  "new_AudioPlayer =
     \<lparr>currentProcess = None, isPaused = False, currentFile = None, mostRecentFile = None\<rparr>"

definition setMostRecentFile :: "string \<Rightarrow> AudioPlayer \<Rightarrow> AudioPlayer" where
  "setMostRecentFile filePath pl = pl\<lparr>mostRecentFile := Some filePath\<rparr>"

definition stop :: "AudioPlayer \<Rightarrow> PlayReply \<times> (nat \<times> signal) list \<times> AudioPlayer" where
  "stop pl =
     (case currentProcess pl of
        Some p \<Rightarrow>
          (\<lparr>p_message = ''Audio playback stopped'', p_status = ''stopped'', p_file = None\<rparr>,
           [(p, SIGTERM)],
           pl\<lparr>currentProcess := None, currentFile := None, isPaused := False\<rparr>)
      | None \<Rightarrow>
          (\<lparr>p_message = ''No active playback to stop'', p_status = ''stopped'', p_file = None\<rparr>,
           [], pl))"

text \<open>
  \<open>play\<close>: \<open>spawned\<close> is what \<open>spawn('afplay', [filePath])\<close> does in this call, the
  new child process or \<open>None\<close> when it throws synchronously.
\<close>

definition play ::
  "string option \<Rightarrow> nat option \<Rightarrow> AudioPlayer \<Rightarrow>
     (exn + PlayReply) \<times> (nat \<times> signal) list \<times> AudioPlayer" where
  "play audioPath spawned pl =
     (let filePath = (if truthy audioPath then audioPath else mostRecentFile pl) in
      if \<not> truthy filePath then (Inl (TTSError FILE_NOT_FOUND None), [], pl)
      else
        (case stop pl of (_, sigs, pl1) \<Rightarrow>
           (case spawned of
              None \<Rightarrow> (Inl (TTSError PLAYBACK_FAILED None), sigs, pl1)
            | Some p \<Rightarrow>
                (Inr \<lparr>p_message = ''Started playing audio file'', p_status = ''playing'',
                      p_file = filePath\<rparr>,
                 sigs,
                 pl1\<lparr>currentProcess := Some p, currentFile := filePath, isPaused := False\<rparr>))))"

text \<open>The \<open>'close'\<close> listener that \<open>play\<close> puts on every process it spawns.\<close>

definition on_close :: "AudioPlayer \<Rightarrow> AudioPlayer" where
  "on_close pl = pl\<lparr>currentProcess := None, currentFile := None, isPaused := False\<rparr>"

definition pause :: "AudioPlayer \<Rightarrow> PlayReply \<times> (nat \<times> signal) list \<times> AudioPlayer" where
  "pause pl =
     (case currentProcess pl of
        None \<Rightarrow>
          (\<lparr>p_message = ''No active playback to pause'', p_status = ''stopped'', p_file = None\<rparr>,
           [], pl)
      | Some p \<Rightarrow>
          if isPaused pl then
            (\<lparr>p_message = ''No active playback to pause'', p_status = ''stopped'', p_file = None\<rparr>,
             [], pl)
          else
            (\<lparr>p_message = ''Audio playback paused'', p_status = ''paused'', p_file = None\<rparr>,
             [(p, SIGSTOP)], pl\<lparr>isPaused := True\<rparr>))"

definition resume :: "AudioPlayer \<Rightarrow> PlayReply \<times> (nat \<times> signal) list \<times> AudioPlayer" where
  "resume pl =
     (case currentProcess pl of
        None \<Rightarrow>
          (\<lparr>p_message = ''No paused playback to resume'', p_status = ''stopped'', p_file = None\<rparr>,
           [], pl)
      | Some p \<Rightarrow>
          if \<not> isPaused pl then
            (\<lparr>p_message = ''No paused playback to resume'', p_status = ''playing'', p_file = None\<rparr>,
             [], pl)
          else
            (\<lparr>p_message = ''Audio playback resumed'', p_status = ''playing'', p_file = None\<rparr>,
             [(p, SIGCONT)], pl\<lparr>isPaused := False\<rparr>))"

definition getStatus :: "AudioPlayer \<Rightarrow> PlayerStatus" where
  "getStatus pl =
     \<lparr>s_status =
        (case currentProcess pl of
           Some _ \<Rightarrow> (if isPaused pl then ''paused'' else ''playing'')
         | None \<Rightarrow> ''stopped''),
      s_file = (if truthy (currentFile pl) then currentFile pl else None),
      s_isPaused = isPaused pl\<rparr>"

text \<open>
  The states the singleton can be in: it starts as \<open>new_AudioPlayer\<close>, and each step
  is one operation of the class or one \<open>'close'\<close> event of a process spawned earlier.
\<close>

inductive reachable :: "AudioPlayer \<Rightarrow> bool" where
  r_new: "reachable new_AudioPlayer"
| r_setMostRecentFile: "reachable pl \<Longrightarrow> reachable (setMostRecentFile filePath pl)"
| r_play: "reachable pl \<Longrightarrow> reachable (snd (snd (play audioPath spawned pl)))"
| r_pause: "reachable pl \<Longrightarrow> reachable (snd (snd (pause pl)))"
| r_resume: "reachable pl \<Longrightarrow> reachable (snd (snd (resume pl)))"
| r_stop: "reachable pl \<Longrightarrow> reachable (snd (snd (stop pl)))"
| r_close: "reachable pl \<Longrightarrow> reachable (on_close pl)"

definition player_inv :: "AudioPlayer \<Rightarrow> bool" where
  "player_inv pl =
     (currentProcess pl = None \<longrightarrow> currentFile pl = None \<and> \<not> isPaused pl)"



section \<open>The host: files and child processes\<close>

text \<open>
  The file system is a map from paths to file sizes. \<open>fs.unlink\<close> removes an existing
  path and throws on a missing one; \<open>fs.stat\<close> gives the size of an existing path and
  throws on a missing one. Whether \<open>fs.mkdir\<close> and \<open>fs.writeFile\<close> succeed is given
  by the host in each call.
\<close>

type_synonym files = "string \<rightharpoonup> nat"

definition unlink :: "string \<Rightarrow> files \<Rightarrow> exn + files" where
  "unlink p fs = (if p \<in> dom fs then Inr (fs(p := None)) else Inl PlainError)"

definition stat :: "string \<Rightarrow> files \<Rightarrow> exn + nat" where
  "stat p fs = (case fs p of None \<Rightarrow> Inl PlainError | Some n \<Rightarrow> Inr n)"

text \<open>\<open>try { await fs.unlink(outputPath); } catch { }\<close> of the two \<open>catch\<close> blocks.\<close>

definition unlink_quietly :: "string \<Rightarrow> files \<Rightarrow> files" where
  "unlink_quietly p fs = (case unlink p fs of Inr fs' \<Rightarrow> fs' | Inl _ \<Rightarrow> fs)"

text \<open>
  The event that settles first the promise wrapped around a spawned child: its
  \<open>'close'\<close> event, with the exit code (\<open>null\<close> when a signal ended it) and what it
  wrote to stdout and stderr; its \<open>'error'\<close> event; or the timer of the call.
\<close>

datatype proc_outcome =
    Closed "int option" string string
  | SpawnError
  | TimedOut


section \<open>The macOS engine\<close>

record MacOSEngine =
  mac_voices :: "Voice list"
  mac_initialized :: bool
  mac_outputDir :: string
  mac_tempDir :: string

definition new_MacOSEngine :: "string \<Rightarrow> string \<Rightarrow> MacOSEngine" where
  "new_MacOSEngine outputDir tempDir =
     \<lparr>mac_voices = [], mac_initialized = False, mac_outputDir = outputDir,
      mac_tempDir = tempDir\<rparr>"

text \<open>
  What the machine answers during one call of \<open>initialize\<close>: \<open>process.platform\<close>,
  whether \<open>which say\<close> exits with 0, and the catalogue that \<open>parseVoices\<close> reads from
  the output of \<open>say -v "?"\<close> (\<open>None\<close> when that command fails).
\<close>

record macos_host =
  h_platform :: string
  h_which_say :: bool
  h_say_voices :: "Voice list option"

definition macos_initialize ::
  "'a macos_host_scheme \<Rightarrow> MacOSEngine \<Rightarrow> exn option \<times> MacOSEngine" where
  "macos_initialize host eng =
     (if mac_initialized eng then (None, eng)
      else if h_platform host \<noteq> ''darwin'' then
        (Some (TTSError ENGINE_NOT_AVAILABLE (Some ''macos'')), eng)
      else if \<not> h_which_say host then
        (Some (TTSError ENGINE_NOT_AVAILABLE (Some ''macos'')), eng)
      else
        (case h_say_voices host of
           None \<Rightarrow> (Some (TTSError ENGINE_NOT_AVAILABLE (Some ''macos'')), eng)
         | Some vs \<Rightarrow> (None, eng\<lparr>mac_voices := vs, mac_initialized := True\<rparr>)))"

definition macos_voice_matches :: "string \<Rightarrow> Voice \<Rightarrow> bool" where
  "macos_voice_matches requestedVoice v =
     (toLowerCase (v_name v) = toLowerCase requestedVoice \<or>
      toLowerCase (v_id v) = toLowerCase requestedVoice)"

text \<open>
  \<open>resolveVoice\<close>: the result \<open>Inr None\<close> is the \<open>undefined\<close> that \<open>this.voices[0]\<close>
  gives on an empty catalogue.
\<close>

definition macos_resolveVoice :: "Voice list \<Rightarrow> string option \<Rightarrow> exn + Voice option" where
  "macos_resolveVoice voices requestedVoice =
     (if \<not> truthy requestedVoice then
        Inr (case find (\<lambda>v. v_name v = ''Alex'') voices of
               Some v \<Rightarrow> Some v
             | None \<Rightarrow> (case voices of [] \<Rightarrow> None | v # _ \<Rightarrow> Some v))
      else
        (case find (macos_voice_matches (the requestedVoice)) voices of
           None \<Rightarrow> Inl (TTSError VOICE_NOT_FOUND (Some ''macos''))
         | Some v \<Rightarrow> Inr (Some v)))"

text \<open>The file name: time stamp and sanitised preview of the text.\<close>

definition timestamp_of :: "string \<Rightarrow> string" where
  "timestamp_of stamp =
     take 19 (map (\<lambda>c. if c = CHR '':'' \<or> c = CHR ''.'' then CHR ''-'' else c) stamp)"

definition is_alnum :: "char \<Rightarrow> bool" where
  "is_alnum c =
     (c \<in> set ''abcdefghijklmnopqrstuvwxyzABCDEFGHIJKLMNOPQRSTUVWXYZ0123456789'')"

fun squash_spaces :: "bool \<Rightarrow> string \<Rightarrow> string" where
  "squash_spaces in_run [] = []"
| "squash_spaces in_run (c # cs) =
     (if is_space c then
        (if in_run then squash_spaces True cs else CHR ''_'' # squash_spaces True cs)
      else c # squash_spaces False cs)"

definition textPreview_of :: "string \<Rightarrow> string" where
  "textPreview_of text =
     toLowerCase (squash_spaces False (filter (\<lambda>c. is_alnum c \<or> is_space c) (take 30 text)))"

text \<open>
  The argument vector \<open>['-v', voice.name, '-r', rate.toString(), '-o', outputPath, text]\<close>,
  kept as a record.
\<close>

record say_args =
  arg_v :: string
  arg_r :: int
  arg_o :: string
  arg_text :: string

text \<open>
  What the machine answers during one call of \<open>synthesize\<close>: besides the answers to
  \<open>initialize\<close>, the clock, \<open>path.join\<close>, whether \<open>mkdir\<close> succeeds, and for the \<open>say\<close>
  process its outcome and what it has done to the files when the promise settles.
\<close>

record macos_run = macos_host +
  h_now_iso :: string
  h_startTime :: int
  h_endTime :: int
  h_path_join :: "string \<Rightarrow> string \<Rightarrow> string"
  h_mkdir :: bool
  h_say :: "say_args \<Rightarrow> proc_outcome"
  h_say_files :: "say_args \<Rightarrow> files \<Rightarrow> files"

definition executeSay :: "proc_outcome \<Rightarrow> exn + unit" where
  "executeSay outcome =
     (case outcome of
        Closed code out err \<Rightarrow> (if code = Some 0 then Inr () else Inl PlainError)
      | SpawnError \<Rightarrow> Inl PlainError
      | TimedOut \<Rightarrow> Inl (TTSError TIMEOUT (Some ''macos'')))"

text \<open>
  The part of \<open>synthesize\<close> before its \<open>try\<close>: lazy initialisation, the two checks of
  the text, the voice and the output path. It is the only part that changes the
  engine.
\<close>

definition macos_prepare ::
  "macos_run \<Rightarrow> SynthesisRequest \<Rightarrow> MacOSEngine \<Rightarrow> (exn + Voice \<times> string) \<times> MacOSEngine" where
  "macos_prepare host request eng =
     (case macos_initialize host eng of
        (Some e, eng1) \<Rightarrow> (Inl e, eng1)
      | (None, eng1) \<Rightarrow>
          if r_text request = [] \<or> length (trim (r_text request)) = 0 then
            (Inl (TTSError INVALID_PARAMETERS (Some ''macos'')), eng1)
          else if length (r_text request) > 50000 then
            (Inl (TTSError TEXT_TOO_LONG (Some ''macos'')), eng1)
          else
            (case macos_resolveVoice (mac_voices eng1) (r_voice request) of
               Inl e \<Rightarrow> (Inl e, eng1)
             | Inr None \<Rightarrow> (Inl TypeError, eng1)
             | Inr (Some voice) \<Rightarrow>
                 (let filename = ''macos_'' @ v_name voice @ ''_'' @ timestamp_of (h_now_iso host)
                        @ ''_'' @ textPreview_of (r_text request) @ ''.aiff'';
                      outputPath = h_path_join host (mac_outputDir eng1) filename
                  in (Inr (voice, outputPath), eng1))))"

text \<open>The body of the \<open>try\<close>.\<close>

definition macos_attempt ::
  "macos_run \<Rightarrow> SynthesisRequest \<Rightarrow> Voice \<Rightarrow> string \<Rightarrow> files \<Rightarrow> (exn + AudioResult) \<times> files" where
  "macos_attempt host request voice outputPath fs =
     (if \<not> h_mkdir host then (Inl (TTSError FILE_OPERATION_FAILED (Some ''macos'')), fs)
      else
        (let rate = calculateRate (r_speed request);
             args = \<lparr>arg_v = v_name voice, arg_r = rate, arg_o = outputPath,
                     arg_text = r_text request\<rparr>;
             fs1 = h_say_files host args fs
         in case executeSay (h_say host args) of
              Inl e \<Rightarrow> (Inl e, fs1)
            | Inr _ \<Rightarrow>
                (case stat outputPath fs1 of
                   Inl e \<Rightarrow> (Inl e, fs1)
                 | Inr bytes \<Rightarrow>
                     (Inr \<lparr>a_filePath = outputPath, a_format = ''aiff'', a_duration = None,
                           a_size = bytes,
                           a_metadata =
                             \<lparr>m_voice = v_name voice, m_engine = ''macos'',
                              m_textLength = length (r_text request),
                              m_synthesisTime = h_endTime host - h_startTime host\<rparr>\<rparr>,
                      fs1))))"

text \<open>The \<open>catch\<close>: a \<open>TTSError\<close> is thrown on, anything else is wrapped.\<close>

definition rethrow :: "string \<Rightarrow> exn \<Rightarrow> exn" where
  "rethrow engine e =
     (case e of
        TTSError c t \<Rightarrow> TTSError c t
      | _ \<Rightarrow> TTSError SYNTHESIS_FAILED (Some engine))"

definition macos_synthesize ::
  "macos_run \<Rightarrow> SynthesisRequest \<Rightarrow> MacOSEngine \<Rightarrow> files \<Rightarrow>
     (exn + AudioResult) \<times> MacOSEngine \<times> files" where
  "macos_synthesize host request eng fs =
     (case macos_prepare host request eng of
        (Inl e, eng1) \<Rightarrow> (Inl e, eng1, fs)
      | (Inr (voice, outputPath), eng1) \<Rightarrow>
          (case macos_attempt host request voice outputPath fs of
             (Inr result, fs1) \<Rightarrow> (Inr result, eng1, fs1)
           | (Inl e, fs1) \<Rightarrow> (Inl (rethrow ''macos'' e), eng1, unlink_quietly outputPath fs1)))"



section \<open>The Kokoro engine\<close>

text \<open>
  Of the fields of the class, \<open>modelPath\<close> (never used) and \<open>pythonEnvironment\<close> (the
  environment variables handed to each child) are left out.
\<close>

record KokoroEngine =
  kok_voices :: "Voice list"
  kok_initialized :: bool
  kok_outputDir :: string
  kok_tempDir :: string
  kok_pythonExecutable :: "string option"

definition new_KokoroEngine :: "string \<Rightarrow> string \<Rightarrow> KokoroEngine" where
  "new_KokoroEngine outputDir tempDir =
     \<lparr>kok_voices = [], kok_initialized = False, kok_outputDir = outputDir,
      kok_tempDir = tempDir, kok_pythonExecutable = None\<rparr>"

text \<open>
  What the machine answers during one call of \<open>initialize\<close>: the outcome of the
  version probe of an executable, the variable \<open>PYTHON_EXECUTABLE\<close>, and the outcome of
  the verification script run by an executable.
\<close>

record kokoro_host =
  k_probe :: "string \<Rightarrow> proc_outcome"
  k_PYTHON_EXECUTABLE :: "string option"
  k_verify :: "string \<Rightarrow> proc_outcome"

definition testPythonExecutable :: "proc_outcome \<Rightarrow> exn + unit" where
  "testPythonExecutable outcome =
     (case outcome of
        Closed code out err \<Rightarrow> (if code = Some 0 then Inr () else Inl PlainError)
      | SpawnError \<Rightarrow> Inl PlainError
      | TimedOut \<Rightarrow> Inl PlainError)"

definition python_works :: "'a kokoro_host_scheme \<Rightarrow> string \<Rightarrow> bool" where
  "python_works host executable = (testPythonExecutable (k_probe host executable) = Inr ())"

definition findPythonExecutable :: "'a kokoro_host_scheme \<Rightarrow> exn + string" where
  "findPythonExecutable host =
     (if python_works host ''/opt/miniconda3/bin/python3'' then Inr ''/opt/miniconda3/bin/python3''
      else if truthy (k_PYTHON_EXECUTABLE host)
              \<and> python_works host (the (k_PYTHON_EXECUTABLE host)) then
        Inr (the (k_PYTHON_EXECUTABLE host))
      else
        (case find (python_works host)
                [''python3'', ''/opt/homebrew/bin/python3'', ''/usr/bin/python3''] of
           Some candidate \<Rightarrow> Inr candidate
         | None \<Rightarrow> Inl PlainError))"

text \<open>
  \<open>verifyKokoroInstallation\<close> puts no \<open>'error'\<close> listener on its child, so a failure
  to spawn it is not a rejection of the promise.
\<close>

definition verifyKokoroInstallation :: "string option \<Rightarrow> proc_outcome \<Rightarrow> exn + unit" where
  "verifyKokoroInstallation pythonExecutable outcome =
     (if \<not> truthy pythonExecutable then Inl PlainError
      else
        (case outcome of
           Closed code out err \<Rightarrow>
             (if code = Some 0 \<and> str_includes out ''SUCCESS'' then Inr () else Inl PlainError)
         | SpawnError \<Rightarrow> Inl UnhandledErrorEvent
         | TimedOut \<Rightarrow> Inl PlainError))"

definition detectPythonEnvironment ::
  "'a kokoro_host_scheme \<Rightarrow> KokoroEngine \<Rightarrow> exn option \<times> KokoroEngine" where
  "detectPythonEnvironment host eng =
     (case findPythonExecutable host of
        Inl e \<Rightarrow> (Some (TTSError ENGINE_NOT_AVAILABLE (Some ''kokoro'')), eng)
      | Inr executable \<Rightarrow>
          (let eng1 = eng\<lparr>kok_pythonExecutable := Some executable\<rparr> in
           case verifyKokoroInstallation (kok_pythonExecutable eng1) (k_verify host executable) of
             Inr _ \<Rightarrow> (None, eng1)
           | Inl UnhandledErrorEvent \<Rightarrow> (Some UnhandledErrorEvent, eng1)
           | Inl _ \<Rightarrow> (Some (TTSError ENGINE_NOT_AVAILABLE (Some ''kokoro'')), eng1)))"

definition kv :: "string \<Rightarrow> string \<Rightarrow> string \<Rightarrow> gender_tag \<Rightarrow> string \<Rightarrow> Voice" where
  "kv i n l g d =
     \<lparr>v_id = i, v_name = n, v_language = l, v_gender = Some g, v_description = Some d,
      v_engine = Tag_kokoro, v_quality = Q_high\<rparr>"

definition kokoro_catalog :: "Voice list" where
  "kokoro_catalog =
     [kv ''kokoro-af'' ''AF (American Female)'' ''en-us'' G_female ''Young American female voice'',
      kv ''kokoro-af_bella'' ''AF_BELLA'' ''en-us'' G_female ''Bella - warm American female'',
      kv ''kokoro-af_sarah'' ''AF_SARAH'' ''en-us'' G_female ''Sarah - clear American female'',
      kv ''kokoro-am_adam'' ''AM_ADAM'' ''en-us'' G_male ''Adam - deep American male'',
      kv ''kokoro-am_michael'' ''AM_MICHAEL'' ''en-us'' G_male ''Michael - natural American male'',
      kv ''kokoro-bf_emma'' ''BF_EMMA'' ''en-gb'' G_female ''Emma - British female'',
      kv ''kokoro-bm_george'' ''BM_GEORGE'' ''en-gb'' G_male ''George - British male'',
      kv ''kokoro-es_am_antonio'' ''ES_AM_ANTONIO'' ''es-es'' G_male ''Antonio - Spanish male'',
      kv ''kokoro-es_af_maria'' ''ES_AF_MARIA'' ''es-es'' G_female ''Maria - Spanish female'',
      kv ''kokoro-fr_am_pierre'' ''FR_AM_PIERRE'' ''fr-fr'' G_male ''Pierre - French male'',
      kv ''kokoro-fr_af_sophie'' ''FR_AF_SOPHIE'' ''fr-fr'' G_female ''Sophie - French female'',
      kv ''kokoro-ja_af_yuki'' ''JA_AF_YUKI'' ''ja-jp'' G_female ''Yuki - Japanese female'',
      kv ''kokoro-ja_am_hiroshi'' ''JA_AM_HIROSHI'' ''ja-jp'' G_male ''Hiroshi - Japanese male'',
      kv ''kokoro-de_af_anna'' ''DE_AF_ANNA'' ''de-de'' G_female ''Anna - German female'',
      kv ''kokoro-de_am_hans'' ''DE_AM_HANS'' ''de-de'' G_male ''Hans - German male'',
      kv ''kokoro-it_af_giulia'' ''IT_AF_GIULIA'' ''it-it'' G_female ''Giulia - Italian female'',
      kv ''kokoro-it_am_marco'' ''IT_AM_MARCO'' ''it-it'' G_male ''Marco - Italian male'',
      kv ''kokoro-pt_af_maria'' ''PT_AF_MARIA'' ''pt-br'' G_female ''Maria - Portuguese female'',
      kv ''kokoro-pt_am_joao'' ''PT_AM_JOAO'' ''pt-br'' G_male
        (''Jo'' @ [CHR 0xE3] @ ''o - Portuguese male''),
      kv ''kokoro-zh_af_mei'' ''ZH_AF_MEI'' ''zh-cn'' G_female ''Mei - Chinese female'',
      kv ''kokoro-zh_am_wei'' ''ZH_AM_WEI'' ''zh-cn'' G_male ''Wei - Chinese male'']"

text \<open>
  \<open>initialize\<close>: its \<open>catch\<close> returns, whatever was thrown inside the \<open>try\<close>.
\<close>

definition kokoro_initialize ::
  "'a kokoro_host_scheme \<Rightarrow> KokoroEngine \<Rightarrow> exn option \<times> KokoroEngine" where
  "kokoro_initialize host eng =
     (if kok_initialized eng then (None, eng)
      else
        (case detectPythonEnvironment host eng of
           (Some UnhandledErrorEvent, eng1) \<Rightarrow> (Some UnhandledErrorEvent, eng1)
         | (Some _, eng1) \<Rightarrow> (None, eng1)
         | (None, eng1) \<Rightarrow>
             (None, eng1\<lparr>kok_voices := kokoro_catalog, kok_initialized := True\<rparr>)))"

definition kokoro_voice_matches :: "string \<Rightarrow> Voice \<Rightarrow> bool" where
  "kokoro_voice_matches requestedVoice v =
     (toLowerCase (v_name v) = toLowerCase requestedVoice \<or>
      toLowerCase (v_id v) = toLowerCase requestedVoice \<or>
      str_includes (toLowerCase (v_name v)) (toLowerCase requestedVoice))"

definition kokoro_resolveVoice :: "Voice list \<Rightarrow> string option \<Rightarrow> exn + Voice option" where
  "kokoro_resolveVoice voices requestedVoice =
     (if \<not> truthy requestedVoice then
        Inr (case find (\<lambda>v. v_id v = ''kokoro-af_sarah'') voices of
               Some v \<Rightarrow> Some v
             | None \<Rightarrow> (case voices of [] \<Rightarrow> None | v # _ \<Rightarrow> Some v))
      else
        (case find (kokoro_voice_matches (the requestedVoice)) voices of
           None \<Rightarrow> Inl (TTSError VOICE_NOT_FOUND (Some ''kokoro''))
         | Some v \<Rightarrow> Inr (Some v)))"

text \<open>
  The generated script is the fixed Python text of \<open>generateKokoroScript\<close> with three
  values spliced in; it is kept as these three values.
\<close>

record KokoroScript =
  ks_text :: string
  ks_voice_name :: string
  ks_output_path :: string

definition escape_text :: "string \<Rightarrow> string" where
  "escape_text text =
     concat (map (\<lambda>c. if c = CHR 0x22 then [CHR 0x5C, CHR 0x22]
                       else if c = CHR 0x0A then [CHR 0x5C, CHR ''n'']
                       else [c]) text)"

definition generateKokoroScript :: "string \<Rightarrow> Voice \<Rightarrow> string \<Rightarrow> KokoroScript" where
  "generateKokoroScript text voice outputPath =
     (let voiceName = (if prefix ''kokoro-'' (v_name voice) then drop 7 (v_name voice)
                       else v_name voice)
      in \<lparr>ks_text = escape_text text, ks_voice_name = voiceName, ks_output_path = outputPath\<rparr>)"

text \<open>
  What the machine answers during one call of \<open>synthesize\<close>: besides the answers to
  \<open>initialize\<close>, the clock (\<open>k_now_ms\<close> is \<open>Date.now()\<close> as the template string prints
  it), \<open>path.join\<close>, whether \<open>mkdir\<close> and \<open>writeFile\<close> succeed and the size of the
  script file, and for the interpreter running the script (given the executable, the
  path of the script and the script) its outcome and what it has done to the files
  when the promise settles.
\<close>

record kokoro_run = kokoro_host +
  k_now_iso :: string
  k_now_ms :: string
  k_startTime :: int
  k_endTime :: int
  k_path_join :: "string \<Rightarrow> string \<Rightarrow> string"
  k_mkdir :: bool
  k_writeFile :: bool
  k_script_bytes :: "KokoroScript \<Rightarrow> nat"
  k_python :: "string \<Rightarrow> string \<Rightarrow> KokoroScript \<Rightarrow> proc_outcome"
  k_python_files :: "string \<Rightarrow> string \<Rightarrow> KokoroScript \<Rightarrow> files \<Rightarrow> files"

text \<open>
  \<open>executeKokoro\<close>: it throws before spawning anything when no interpreter was
  recorded, and otherwise settles on the outcome of the child.
\<close>

definition executeKokoro :: "string option \<Rightarrow> proc_outcome \<Rightarrow> exn + unit" where
  "executeKokoro pythonExecutable outcome =
     (if \<not> truthy pythonExecutable then Inl (TTSError ENGINE_NOT_AVAILABLE (Some ''kokoro''))
      else
        (case outcome of
           Closed code out err \<Rightarrow>
             (if code = Some 0 \<and> str_includes out ''SUCCESS'' then Inr ()
              else Inl (TTSError SYNTHESIS_FAILED (Some ''kokoro'')))
         | SpawnError \<Rightarrow> Inl (TTSError ENGINE_NOT_AVAILABLE (Some ''kokoro''))
         | TimedOut \<Rightarrow> Inl (TTSError TIMEOUT (Some ''kokoro''))))"

definition kokoro_prepare ::
  "kokoro_run \<Rightarrow> SynthesisRequest \<Rightarrow> KokoroEngine \<Rightarrow> (exn + Voice \<times> string) \<times> KokoroEngine" where
  "kokoro_prepare host request eng =
     (case kokoro_initialize host eng of
        (Some e, eng1) \<Rightarrow> (Inl e, eng1)
      | (None, eng1) \<Rightarrow>
          if r_text request = [] \<or> length (trim (r_text request)) = 0 then
            (Inl (TTSError INVALID_PARAMETERS (Some ''kokoro'')), eng1)
          else if length (r_text request) > 50000 then
            (Inl (TTSError TEXT_TOO_LONG (Some ''kokoro'')), eng1)
          else
            (case kokoro_resolveVoice (kok_voices eng1) (r_voice request) of
               Inl e \<Rightarrow> (Inl e, eng1)
             | Inr None \<Rightarrow> (Inl TypeError, eng1)
             | Inr (Some voice) \<Rightarrow>
                 (let filename = ''kokoro_'' @ v_name voice @ ''_'' @ timestamp_of (k_now_iso host)
                        @ ''_'' @ textPreview_of (r_text request) @ ''.wav'';
                      outputPath = k_path_join host (kok_outputDir eng1) filename
                  in (Inr (voice, outputPath), eng1))))"

definition kokoro_scriptPath :: "kokoro_run \<Rightarrow> KokoroEngine \<Rightarrow> string" where
  "kokoro_scriptPath host eng =
     k_path_join host (kok_tempDir eng) (''kokoro_'' @ k_now_ms host @ ''.py'')"

definition kokoro_attempt ::
  "kokoro_run \<Rightarrow> SynthesisRequest \<Rightarrow> KokoroEngine \<Rightarrow> Voice \<Rightarrow> string \<Rightarrow> files \<Rightarrow>
     (exn + AudioResult) \<times> files" where
  "kokoro_attempt host request eng voice outputPath fs =
     (if \<not> k_mkdir host then (Inl (TTSError FILE_OPERATION_FAILED (Some ''kokoro'')), fs)
      else
        (let pythonScript = generateKokoroScript (r_text request) voice outputPath;
             scriptPath = kokoro_scriptPath host eng
         in if \<not> k_writeFile host then (Inl PlainError, fs)
            else
              (let fs1 = fs(scriptPath \<mapsto> k_script_bytes host pythonScript) in
               if \<not> truthy (kok_pythonExecutable eng) then
                 (Inl (TTSError ENGINE_NOT_AVAILABLE (Some ''kokoro'')), fs1)
               else
                 (let python = the (kok_pythonExecutable eng);
                      fs2 = k_python_files host python scriptPath pythonScript fs1
                  in case executeKokoro (kok_pythonExecutable eng)
                            (k_python host python scriptPath pythonScript) of
                       Inl e \<Rightarrow> (Inl e, fs2)
                     | Inr _ \<Rightarrow>
                         (case unlink scriptPath fs2 of
                            Inl e \<Rightarrow> (Inl e, fs2)
                          | Inr fs3 \<Rightarrow>
                              (case stat outputPath fs3 of
                                 Inl e \<Rightarrow> (Inl e, fs3)
                               | Inr bytes \<Rightarrow>
                                   (Inr \<lparr>a_filePath = outputPath, a_format = ''wav'',
                                         a_duration = None, a_size = bytes,
                                         a_metadata =
                                           \<lparr>m_voice = v_name voice, m_engine = ''kokoro'',
                                            m_textLength = length (r_text request),
                                            m_synthesisTime =
                                              k_endTime host - k_startTime host\<rparr>\<rparr>,
                                    fs3)))))))"

definition kokoro_synthesize ::
  "kokoro_run \<Rightarrow> SynthesisRequest \<Rightarrow> KokoroEngine \<Rightarrow> files \<Rightarrow>
     (exn + AudioResult) \<times> KokoroEngine \<times> files" where
  "kokoro_synthesize host request eng fs =
     (case kokoro_prepare host request eng of
        (Inl e, eng1) \<Rightarrow> (Inl e, eng1, fs)
      | (Inr (voice, outputPath), eng1) \<Rightarrow>
          (case kokoro_attempt host request eng1 voice outputPath fs of
             (Inr result, fs1) \<Rightarrow> (Inr result, eng1, fs1)
           | (Inl e, fs1) \<Rightarrow>
               (Inl (rethrow ''kokoro'' e), eng1, unlink_quietly outputPath fs1)))"


section \<open>The schema of \<open>synthesize_text\<close>\<close>

text \<open>
  The parameters as they arrive, each field of the right JSON type or absent, and what
  \<open>synthesizeTextSchema.parse\<close> makes of them: the defaults filled in, or a \<open>ZodError\<close>.
\<close>

record raw_params =
  raw_text :: "string option"
  raw_voice :: "string option"
  raw_engine :: "string option"
  raw_outputFormat :: "string option"
  raw_speed :: "js_number option"
  raw_quality :: "string option"

record SynthesizeTextParams =
  sp_text :: string
  sp_voice :: "string option"
  sp_engine :: engine_pref
  sp_outputFormat :: audio_format
  sp_speed :: js_number
  sp_quality :: quality_tier

datatype ZodError = ZodError

definition parse_engine :: "string option \<Rightarrow> engine_pref option" where
  "parse_engine e =
     (case e of
        None \<Rightarrow> Some P_auto
      | Some s \<Rightarrow>
          if s = ''macos'' then Some P_macos
          else if s = ''kokoro'' then Some P_kokoro
          else if s = ''auto'' then Some P_auto
          else None)"

definition parse_outputFormat :: "string option \<Rightarrow> audio_format option" where
  "parse_outputFormat f =
     (case f of
        None \<Rightarrow> Some F_aiff
      | Some s \<Rightarrow>
          if s = ''wav'' then Some F_wav
          else if s = ''mp3'' then Some F_mp3
          else if s = ''m4a'' then Some F_m4a
          else if s = ''aiff'' then Some F_aiff
          else None)"

definition parse_quality :: "string option \<Rightarrow> quality_tier option" where
  "parse_quality q =
     (case q of
        None \<Rightarrow> Some Q_balanced
      | Some s \<Rightarrow>
          if s = ''fast'' then Some Q_fast
          else if s = ''balanced'' then Some Q_balanced
          else if s = ''high'' then Some Q_high
          else None)"

text \<open>
  \<open>z.number().min(0.1).max(3.0)\<close>: \<open>NaN\<close> is not a number for zod, and the bounds are
  the doubles that the literals denote.
\<close>

definition parse_speed :: "js_number option \<Rightarrow> js_number option" where
  "parse_speed sp =
     (case sp of
        None \<Rightarrow> Some (Num 1)
      | Some (Num x) \<Rightarrow> if to_double (1 / 10) \<le> x \<and> x \<le> 3 then Some (Num x) else None
      | Some _ \<Rightarrow> None)"

definition synthesizeTextSchema_parse :: "raw_params \<Rightarrow> ZodError + SynthesizeTextParams" where
  "synthesizeTextSchema_parse params =
     (case (raw_text params, parse_engine (raw_engine params),
            parse_outputFormat (raw_outputFormat params), parse_speed (raw_speed params),
            parse_quality (raw_quality params)) of
        (Some text, Some engine, Some outputFormat, Some speed, Some quality) \<Rightarrow>
          if 1 \<le> length text \<and> length text \<le> 50000 then
            Inr \<lparr>sp_text = text, sp_voice = raw_voice params, sp_engine = engine,
                 sp_outputFormat = outputFormat, sp_speed = speed, sp_quality = quality\<rparr>
          else Inl ZodError
      | _ \<Rightarrow> Inl ZodError)"



section \<open>The matching rule of the specification, and sample data\<close>

text \<open>
  The specification's rule for an explicit voice: exact match on name or id, case
  ignored.
\<close>

definition spec_voice_matches :: "string \<Rightarrow> Voice \<Rightarrow> bool" where
  "spec_voice_matches requestedVoice v =
     (toLowerCase (v_name v) = toLowerCase requestedVoice \<or>
      toLowerCase (v_id v) = toLowerCase requestedVoice)"

text \<open>
  Three voices as \<open>parseVoices\<close> builds them (\<open>inferGender\<close> finds the keyword \<open>man\<close>
  in \<open>samantha\<close>), an initialised engine of each kind, and a
  machine on which the \<open>say\<close> process, or the interpreter, ends with a given outcome
  after writing 512 bytes to the output path.
\<close>

definition alex :: Voice where
  "alex =
     \<lparr>v_id = ''macos-alex'', v_name = ''Alex'', v_language = ''en-us'', v_gender = Some G_male,
      v_description = Some ''Most people recognize me by my voice.'', v_engine = Tag_macos,
      v_quality = Q_balanced\<rparr>"

definition samantha :: Voice where
  "samantha =
     \<lparr>v_id = ''macos-samantha'', v_name = ''Samantha'', v_language = ''en-us'',
      v_gender = Some G_male, v_description = Some ''Hello, my name is Samantha.'',
      v_engine = Tag_macos, v_quality = Q_balanced\<rparr>"

definition amelie :: Voice where
  "amelie =
     \<lparr>v_id = ''macos-am'' @ [CHR 0xE9] @ ''lie'', v_name = ''Am'' @ [CHR 0xE9] @ ''lie'',
      v_language = ''fr-ca'', v_gender = Some G_female,
      v_description = Some (''Bonjour, je m'' @ [CHR 0x27] @ ''appelle Am'' @ [CHR 0xE9] @ ''lie.''),
      v_engine = Tag_macos, v_quality = Q_balanced\<rparr>"

definition af_sarah :: Voice where
  "af_sarah =
     kv ''kokoro-af_sarah'' ''AF_SARAH'' ''en-us'' G_female ''Sarah - clear American female''"

definition sample_request :: "string \<Rightarrow> SynthesisRequest" where
  "sample_request text =
     \<lparr>r_text = text, r_voice = None, r_engine = None, r_outputFormat = None,
      r_speed = Some (Num 1), r_quality = None\<rparr>"

definition sample_macos_engine :: MacOSEngine where
  "sample_macos_engine =
     \<lparr>mac_voices = [samantha, alex], mac_initialized = True, mac_outputDir = ''/out'',
      mac_tempDir = ''/tmp''\<rparr>"

definition sample_macos_run :: "proc_outcome \<Rightarrow> macos_run" where
  "sample_macos_run outcome =
     \<lparr>h_platform = ''darwin'', h_which_say = True, h_say_voices = Some [samantha, alex],
      h_now_iso = ''2026-01-02T03:04:05.678Z'', h_startTime = 1000, h_endTime = 1500,
      h_path_join = (\<lambda>dir file. dir @ ''/'' @ file), h_mkdir = True,
      h_say = (\<lambda>args. outcome),
      h_say_files = (\<lambda>args fs. fs(arg_o args \<mapsto> 512))\<rparr>"

definition sample_kokoro_engine :: KokoroEngine where
  "sample_kokoro_engine =
     \<lparr>kok_voices = kokoro_catalog, kok_initialized = True, kok_outputDir = ''/out'',
      kok_tempDir = ''/tmp'', kok_pythonExecutable = Some ''python3''\<rparr>"

definition sample_kokoro_run :: "proc_outcome \<Rightarrow> proc_outcome \<Rightarrow> kokoro_run" where
  "sample_kokoro_run verify outcome =
     \<lparr>k_probe = (\<lambda>executable. if executable = ''python3''
                               then Closed (Some 0) ''Python 3.12.1'' []
                               else SpawnError),
      k_PYTHON_EXECUTABLE = None,
      k_verify = (\<lambda>executable. verify),
      k_now_iso = ''2026-01-02T03:04:05.678Z'', k_now_ms = ''1767323045678'',
      k_startTime = 1000, k_endTime = 1500,
      k_path_join = (\<lambda>dir file. dir @ ''/'' @ file), k_mkdir = True, k_writeFile = True,
      k_script_bytes = (\<lambda>script. 4000 + length (ks_text script)),
      k_python = (\<lambda>python scriptPath script. outcome),
      k_python_files = (\<lambda>python scriptPath script fs. fs(ks_output_path script \<mapsto> 512))\<rparr>"

definition long_params :: "char \<Rightarrow> raw_params" where
  "long_params c =
     \<lparr>raw_text = Some (replicate 50001 c), raw_voice = None, raw_engine = None,
      raw_outputFormat = None, raw_speed = None, raw_quality = None\<rparr>"


section \<open>Properties\<close>

subsection \<open>Strings and lists\<close>

lemma str_includes_sublist: "str_includes s t = sublist t s"
  by (induction s) (auto simp: sublist_Cons_right)

lemma trim_empty_iff: "trim s = [] \<longleftrightarrow> (\<forall>c \<in> set s. is_space c)"
proof
  assume "trim s = []"
  then have "dropWhile is_space (rev (dropWhile is_space s)) = []"
    by (simp add: trim_def)
  then have a: "\<forall>c \<in> set (dropWhile is_space s). is_space c"
    by (simp add: dropWhile_eq_Nil_conv)
  show "\<forall>c \<in> set s. is_space c"
  proof (rule ccontr)
    assume "\<not> (\<forall>c \<in> set s. is_space c)"
    then have "dropWhile is_space s \<noteq> []"
      by (simp add: dropWhile_eq_Nil_conv)
    then have "\<not> is_space (hd (dropWhile is_space s))"
      and "hd (dropWhile is_space s) \<in> set (dropWhile is_space s)"
      by (simp_all add: hd_dropWhile)
    with a show False by blast
  qed
next
  assume "\<forall>c \<in> set s. is_space c"
  then show "trim s = []"
    by (auto simp: trim_def dropWhile_eq_Nil_conv dest: set_dropWhileD)
qed

lemma trim_replicate: "trim (replicate 50001 c) = [] \<longleftrightarrow> is_space c"
  by (simp add: trim_empty_iff)

lemma find_Some_D: "find P xs = Some x \<Longrightarrow> x \<in> set xs \<and> P x"
  by (induction xs) (auto split: if_splits)

lemma find_None_all: "find P xs = None \<longleftrightarrow> (\<forall>x \<in> set xs. \<not> P x)"
  by (induction xs) auto

lemmas lower_eval = toLowerCase_def toLowerChar_def char_of_def bit_0

lemma lower_samples:
  "toLowerCase ''ALEX'' = ''alex''" "toLowerCase ''Alex'' = ''alex''"
  "toLowerCase ''Samantha'' = ''samantha''" "toLowerCase ''macos-alex'' = ''macos-alex''"
  "toLowerCase ''macos-samantha'' = ''macos-samantha''" "toLowerCase ''Bob'' = ''bob''"
  by (simp_all add: lower_eval)


subsection \<open>Evaluating the sample calls\<close>

lemma sample_long: "50000 < length (r_text (sample_request (replicate 50001 c)))"
  by (simp add: sample_request_def)

lemma sample_macos_initialized:
  "fst (macos_initialize (sample_macos_run outcome) sample_macos_engine) = None"
  by (simp add: macos_initialize_def sample_macos_engine_def)

lemma sample_kokoro_initialized:
  "fst (kokoro_initialize (sample_kokoro_run verify outcome) sample_kokoro_engine) = None"
  by (simp add: kokoro_initialize_def sample_kokoro_engine_def)

lemma sample_macos_prepare:
  "macos_prepare (sample_macos_run outcome) (sample_request ''Hello, world!'') sample_macos_engine =
     (Inr (alex, ''/out/macos_Alex_2026-01-02T03-04-05_hello_world.aiff''), sample_macos_engine)"
  by (simp add: macos_prepare_def macos_initialize_def sample_macos_engine_def
        sample_macos_run_def sample_request_def trim_def is_space_def macos_resolveVoice_def
        truthy_def alex_def samantha_def timestamp_of_def textPreview_of_def is_alnum_def
        lower_eval)

lemma sample_macos_failure:
  "macos_synthesize (sample_macos_run (Closed (Some 1) [] ''say: error''))
     (sample_request ''Hello, world!'') sample_macos_engine Map.empty =
   (Inl (TTSError SYNTHESIS_FAILED (Some ''macos'')), sample_macos_engine, Map.empty)"
  unfolding macos_synthesize_def sample_macos_prepare
  by (simp add: macos_attempt_def executeSay_def rethrow_def unlink_quietly_def unlink_def
        sample_macos_run_def fun_eq_iff)

lemma sample_kokoro_prepare:
  "kokoro_prepare (sample_kokoro_run verify outcome) (sample_request ''Hello, world!'')
     sample_kokoro_engine =
   (Inr (af_sarah, ''/out/kokoro_AF_SARAH_2026-01-02T03-04-05_hello_world.wav''),
    sample_kokoro_engine)"
  by (simp add: kokoro_prepare_def kokoro_initialize_def sample_kokoro_engine_def
        sample_kokoro_run_def sample_request_def trim_def is_space_def kokoro_resolveVoice_def
        truthy_def kokoro_catalog_def kv_def af_sarah_def timestamp_of_def textPreview_of_def
        is_alnum_def lower_eval)

lemma sample_kokoro_failure:
  "kokoro_synthesize (sample_kokoro_run TimedOut (Closed (Some 1) [] ''Kokoro synthesis error''))
     (sample_request ''Hello, world!'') sample_kokoro_engine Map.empty =
   (Inl (TTSError SYNTHESIS_FAILED (Some ''kokoro'')), sample_kokoro_engine,
    [''/tmp/kokoro_1767323045678.py'' \<mapsto> 4013])"
  unfolding kokoro_synthesize_def sample_kokoro_prepare
  by (simp add: kokoro_attempt_def executeKokoro_def rethrow_def unlink_quietly_def unlink_def
        sample_kokoro_run_def sample_kokoro_engine_def kokoro_scriptPath_def truthy_def
        generateKokoroScript_def escape_text_def kv_def af_sarah_def sample_request_def
        fun_eq_iff)


subsection \<open>Engine selection\<close>

text \<open>
  Claim C3. With an explicit engine name the handler uses the engine registered under
  exactly that name, and fails with \<open>ENGINE_NOT_AVAILABLE\<close> when the registry has none;
  with \<open>auto\<close> it uses the Kokoro engine if one is registered, otherwise the macOS
  engine, and fails with \<open>ENGINE_NOT_AVAILABLE\<close> when neither is registered.
\<close>

theorem selectEngine_policy:
  "(engines ''macos'' = Some m \<longrightarrow> handler_select P_macos engines = Inr m) \<and>
   (engines ''macos'' = None \<longrightarrow>
      handler_select P_macos engines = Inl (TTSError ENGINE_NOT_AVAILABLE None)) \<and>
   (engines ''kokoro'' = Some k \<longrightarrow> handler_select P_kokoro engines = Inr k) \<and>
   (engines ''kokoro'' = None \<longrightarrow>
      handler_select P_kokoro engines = Inl (TTSError ENGINE_NOT_AVAILABLE None)) \<and>
   (engines ''kokoro'' = Some k \<longrightarrow> handler_select P_auto engines = Inr k) \<and>
   (engines ''kokoro'' = None \<longrightarrow> engines ''macos'' = Some m \<longrightarrow>
      handler_select P_auto engines = Inr m) \<and>
   (engines ''kokoro'' = None \<longrightarrow> engines ''macos'' = None \<longrightarrow>
      handler_select P_auto engines = Inl (TTSError ENGINE_NOT_AVAILABLE None))"
  by (simp add: handler_select_def selectEngine_def)

theorem selectEngine_policy_witness:
  "handler_select P_macos [''macos'' \<mapsto> (1::nat), ''kokoro'' \<mapsto> 2] = Inr 1 \<and>
   handler_select P_kokoro [''macos'' \<mapsto> (1::nat), ''kokoro'' \<mapsto> 2] = Inr 2 \<and>
   handler_select P_auto [''macos'' \<mapsto> (1::nat), ''kokoro'' \<mapsto> 2] = Inr 2 \<and>
   handler_select P_auto [''macos'' \<mapsto> (1::nat)] = Inr 1 \<and>
   handler_select P_kokoro [''macos'' \<mapsto> (1::nat)] = Inl (TTSError ENGINE_NOT_AVAILABLE None) \<and>
   handler_select P_macos [''kokoro'' \<mapsto> (2::nat)] = Inl (TTSError ENGINE_NOT_AVAILABLE None) \<and>
   handler_select P_auto (Map.empty :: string \<rightharpoonup> nat) = Inl (TTSError ENGINE_NOT_AVAILABLE None)"
  using selectEngine_policy [of "[''macos'' \<mapsto> (1::nat), ''kokoro'' \<mapsto> 2]" 1 2]
    selectEngine_policy [of "[''macos'' \<mapsto> (1::nat)]" 1 2]
    selectEngine_policy [of "[''kokoro'' \<mapsto> (2::nat)]" 1 2]
    selectEngine_policy [of "Map.empty :: string \<rightharpoonup> nat" 1 2]
  by simp


subsection \<open>Rounding to doubles\<close>

lemma bitlen_mono: "m \<le> n \<Longrightarrow> bitlen m \<le> bitlen n"
  by (simp add: bitlen_def floorlog_mono nat_mono)

lemma binade_mono: "a \<le> b \<Longrightarrow> binade a \<le> binade b"
proof -
  assume "a \<le> b"
  then have "\<lfloor>a * 2 ^ 1074\<rfloor> \<le> \<lfloor>b * 2 ^ 1074\<rfloor>"
    by (intro floor_mono) simp
  then show ?thesis
    unfolding binade_def using bitlen_mono by fastforce
qed

lemma binade_ge: "- 1022 \<le> binade a"
  by (simp add: binade_def)

lemma real_lt_bitlen:
  fixes x :: real
  assumes "0 \<le> x"
  shows "x < 2 powi (bitlen \<lfloor>x\<rfloor>)"
proof (cases "\<lfloor>x\<rfloor> > 0")
  case True
  from bitlen_bounds [OF True] have "\<lfloor>x\<rfloor> < 2 ^ nat (bitlen \<lfloor>x\<rfloor>)" ..
  then have "\<lfloor>x\<rfloor> + 1 \<le> 2 ^ nat (bitlen \<lfloor>x\<rfloor>)" by simp
  then have "real_of_int (\<lfloor>x\<rfloor> + 1) \<le> real_of_int (2 ^ nat (bitlen \<lfloor>x\<rfloor>))"
    by (rule of_int_le_iff [THEN iffD2])
  moreover have "x < real_of_int (\<lfloor>x\<rfloor> + 1)"
    by linarith
  moreover have "real_of_int (2 ^ nat (bitlen \<lfloor>x\<rfloor>)) = 2 ^ nat (bitlen \<lfloor>x\<rfloor>)"
    by simp
  ultimately have "x < 2 ^ nat (bitlen \<lfloor>x\<rfloor>)" by linarith
  then show ?thesis
    using bitlen_nonneg [of "\<lfloor>x\<rfloor>"] by (simp add: power_int_def)
next
  case False
  with assms have z: "\<lfloor>x\<rfloor> = 0"
    by (simp add: order_antisym)
  then have "x < 1" by linarith
  with z show ?thesis by simp
qed

lemma real_ge_bitlen:
  fixes x :: real
  assumes "0 < bitlen \<lfloor>x\<rfloor>"
  shows "2 powi (bitlen \<lfloor>x\<rfloor> - 1) \<le> x"
proof -
  have pos: "0 < \<lfloor>x\<rfloor>"
    using assms bitlen_eq_zero_iff [of "\<lfloor>x\<rfloor>"] by (cases "0 < \<lfloor>x\<rfloor>") auto
  from bitlen_bounds [OF pos] have "2 ^ nat (bitlen \<lfloor>x\<rfloor> - 1) \<le> \<lfloor>x\<rfloor>" ..
  then have "real_of_int (2 ^ nat (bitlen \<lfloor>x\<rfloor> - 1)) \<le> real_of_int \<lfloor>x\<rfloor>"
    by (rule of_int_le_iff [THEN iffD2])
  moreover have "real_of_int (2 ^ nat (bitlen \<lfloor>x\<rfloor> - 1)) = 2 ^ nat (bitlen \<lfloor>x\<rfloor> - 1)"
    by simp
  ultimately have "2 ^ nat (bitlen \<lfloor>x\<rfloor> - 1) \<le> x"
    using of_int_floor_le [of x] by linarith
  then show ?thesis
    using assms by (simp add: power_int_def)
qed

lemma scale_back:
  fixes a :: real
  shows "a * 2 ^ 1074 < 2 powi k \<Longrightarrow> a < 2 powi (k - 1074)"
    and "2 powi k \<le> a * 2 ^ 1074 \<Longrightarrow> 2 powi (k - 1074) \<le> a"
proof -
  have p: "(2::real) powi (k - 1074) = 2 powi k / 2 ^ 1074"
    using power_int_diff [of "2::real" k 1074] by simp
  have q: "(0::real) < 2 ^ 1074" by (rule zero_less_power) simp
  show "a * 2 ^ 1074 < 2 powi k \<Longrightarrow> a < 2 powi (k - 1074)"
    unfolding p using q by (simp only: pos_less_divide_eq)
  show "2 powi k \<le> a * 2 ^ 1074 \<Longrightarrow> 2 powi (k - 1074) \<le> a"
    unfolding p using q by (simp only: pos_divide_le_eq)
qed

lemma binade_upper:
  assumes "0 \<le> a"
  shows "a < 2 powi (binade a + 1)"
proof -
  let ?k = "bitlen \<lfloor>a * 2 ^ 1074\<rfloor>"
  have "0 \<le> a * 2 ^ 1074"
    using assms by (intro mult_nonneg_nonneg zero_le_power) simp_all
  from real_lt_bitlen [OF this] have "a < 2 powi (?k - 1074)"
    by (rule scale_back(1))
  also have "(2::real) powi (?k - 1074) \<le> 2 powi (binade a + 1)"
    unfolding binade_def by (intro power_int_increasing) simp_all
  finally show ?thesis .
qed

lemma binade_lower:
  assumes "- 1022 < binade a"
  shows "2 powi (binade a) \<le> a"
proof -
  let ?k = "bitlen \<lfloor>a * 2 ^ 1074\<rfloor>"
  from assms have b: "binade a = ?k - 1075"
    unfolding binade_def by (simp only: max_def split: if_splits) simp_all
  with assms have "0 < ?k" by simp
  from real_ge_bitlen [OF this] have "2 powi (?k - 1 - 1074) \<le> a"
    by (rule scale_back(2))
  moreover have "?k - 1 - 1074 = binade a"
    unfolding b by simp
  ultimately show ?thesis by (simp only:)
qed

lemma binade_eq:
  assumes "- 1022 \<le> e" and "2 powi e \<le> a" and "a < 2 powi (e + 1)"
  shows "binade a = e"
proof -
  have pos: "0 \<le> a"
    using assms(2) zero_less_power_int [of "2::real" e] by linarith
  have "(2::real) powi e < 2 powi (binade a + 1)"
    using assms(2) binade_upper [OF pos] by linarith
  then have 1: "e \<le> binade a"
    using power_int_increasing [of "binade a + 1" e "2::real"] by (cases "e \<le> binade a") auto
  have 2: "binade a \<le> e"
  proof (rule ccontr)
    assume "\<not> binade a \<le> e"
    then have g: "e + 1 \<le> binade a" by simp
    with assms(1) have "- 1022 < binade a" by simp
    from binade_lower [OF this] assms(3) have "(2::real) powi (binade a) < 2 powi (e + 1)"
      by linarith
    with power_int_increasing [OF g, of "2::real"] show False by simp
  qed
  from 1 2 show ?thesis by simp
qed

lemma round_half_even_of_int: "round_half_even (of_int n) = n"
  by (simp add: round_half_even_def)

lemma round_half_even_mono:
  assumes "p \<le> q"
  shows "round_half_even p \<le> round_half_even q"
proof (cases "\<lfloor>p\<rfloor> = \<lfloor>q\<rfloor>")
  case True
  with assms show ?thesis
    by (auto simp: round_half_even_def Let_def)
next
  case False
  with assms have "\<lfloor>p\<rfloor> + 1 \<le> \<lfloor>q\<rfloor>"
    using floor_mono [OF assms] by simp
  moreover have "round_half_even p \<le> \<lfloor>p\<rfloor> + 1"
    by (auto simp: round_half_even_def Let_def)
  moreover have "\<lfloor>q\<rfloor> \<le> round_half_even q"
    by (auto simp: round_half_even_def Let_def)
  ultimately show ?thesis by linarith
qed

lemma to_double_nonneg:
  "0 \<le> a \<Longrightarrow>
     to_double a =
       of_int (round_half_even (a / 2 powi (binade a - 52))) * 2 powi (binade a - 52)"
  by (cases "a = 0") (simp_all add: to_double_def Let_def round_half_even_def)

lemma to_double_le_top:
  assumes "0 \<le> a"
  shows "to_double a \<le> 2 powi (binade a + 1)"
proof -
  let ?u = "(2::real) powi (binade a - 52)"
  have u: "0 < ?u" by simp
  have "a / ?u \<le> 2 powi (binade a + 1) / ?u"
    using binade_upper [OF assms] u by (simp add: divide_right_mono)
  also have "2 powi (binade a + 1) / ?u = (2::real) powi 53"
    by (simp flip: power_int_diff)
  also have "\<dots> = of_int (2 ^ 53)" by simp
  finally have "round_half_even (a / ?u) \<le> round_half_even (of_int (2 ^ 53))"
    by (rule round_half_even_mono)
  then have "round_half_even (a / ?u) \<le> 2 ^ 53"
    by (simp only: round_half_even_of_int)
  then have "real_of_int (round_half_even (a / ?u)) \<le> real_of_int (2 ^ 53)"
    by (rule of_int_le_iff [THEN iffD2])
  then have "real_of_int (round_half_even (a / ?u)) * ?u \<le> 2 powi 53 * ?u"
    using u by (simp add: mult_right_mono)
  also have "(2::real) powi 53 * ?u = 2 powi (binade a + 1)"
    using power_int_add [of "2::real" 53 "binade a - 52"] by (simp add: algebra_simps)
  finally show ?thesis
    by (simp add: to_double_nonneg [OF assms])
qed

lemma to_double_ge_bottom:
  assumes "- 1022 < binade a" and "0 \<le> a"
  shows "2 powi (binade a) \<le> to_double a"
proof -
  let ?u = "(2::real) powi (binade a - 52)"
  have u: "0 < ?u" by simp
  have "2 powi (binade a) / ?u \<le> a / ?u"
    using binade_lower [OF assms(1)] u by (simp add: divide_right_mono)
  moreover have "2 powi (binade a) / ?u = (2::real) powi 52"
    by (simp flip: power_int_diff)
  moreover have "(2::real) powi 52 = of_int (2 ^ 52)" by simp
  ultimately have "real_of_int (2 ^ 52) \<le> a / ?u" by simp
  then have "round_half_even (of_int (2 ^ 52)) \<le> round_half_even (a / ?u)"
    by (rule round_half_even_mono)
  then have "2 ^ 52 \<le> round_half_even (a / ?u)"
    by (simp only: round_half_even_of_int)
  then have "real_of_int (2 ^ 52) \<le> real_of_int (round_half_even (a / ?u))"
    by (rule of_int_le_iff [THEN iffD2])
  then have "real_of_int (2 ^ 52) * ?u \<le> real_of_int (round_half_even (a / ?u)) * ?u"
    using u by (simp only: mult_le_cancel_right_pos)
  moreover have "real_of_int (2 ^ 52) * ?u = 2 powi (binade a)"
    using power_int_add [of "2::real" 52 "binade a - 52"] by (simp add: algebra_simps)
  ultimately have "2 powi (binade a) \<le> real_of_int (round_half_even (a / ?u)) * ?u"
    by (simp only:)
  then show ?thesis
    by (simp only: to_double_nonneg [OF assms(2)])
qed

lemma to_double_mono:
  assumes "0 \<le> a" and "a \<le> b"
  shows "to_double a \<le> to_double b"
proof (cases "binade a = binade b")
  case True
  let ?u = "(2::real) powi (binade b - 52)"
  have u: "0 < ?u" by simp
  from assms(2) u have "a / ?u \<le> b / ?u"
    by (simp add: divide_right_mono)
  then have "round_half_even (a / ?u) \<le> round_half_even (b / ?u)"
    by (rule round_half_even_mono)
  then have "real_of_int (round_half_even (a / ?u)) * ?u
               \<le> real_of_int (round_half_even (b / ?u)) * ?u"
    using u by (simp add: mult_right_mono)
  with True assms show ?thesis
    by (simp add: to_double_nonneg)
next
  case False
  with binade_mono [OF assms(2)] have lt: "binade a + 1 \<le> binade b" by simp
  with binade_ge [of a] have "- 1022 < binade b" by simp
  from to_double_ge_bottom [OF this] assms have "2 powi (binade b) \<le> to_double b" by simp
  moreover have "(2::real) powi (binade a + 1) \<le> 2 powi (binade b)"
    using lt by (intro power_int_increasing) simp_all
  moreover note to_double_le_top [OF assms(1)]
  ultimately show ?thesis by linarith
qed

text \<open>Evaluating the rounding in a binade given by hand.\<close>

lemma to_double_eval:
  assumes "- 1022 \<le> e" and "2 powi e \<le> a" and "a < 2 powi (e + 1)"
  shows "to_double a = of_int (round_half_even (a / 2 powi (e - 52))) * 2 powi (e - 52)"
proof -
  have pos: "0 \<le> a"
    using assms(2) zero_less_power_int [of "2::real" e] by linarith
  show ?thesis
    by (simp add: to_double_nonneg [OF pos] binade_eq [OF assms])
qed

lemma double_tenth: "to_double (1 / 10) = 3602879701896397 / 36028797018963968"
  by (simp add: to_double_eval [of "- 4"] round_half_even_def Let_def)

lemma double_1_0025: "to_double (10025 / 10000) = 4514858626438922 / 4503599627370496"
  by (simp add: to_double_eval [of 0] round_half_even_def Let_def)


subsection \<open>The speed mapping\<close>

lemma Math_round_mono: "x \<le> y \<Longrightarrow> Math_round x \<le> Math_round y"
  unfolding Math_round_def by (intro floor_mono) simp

lemma spec_rate_mono: "0 \<le> s \<Longrightarrow> s \<le> t \<Longrightarrow> spec_rate s \<le> spec_rate t"
proof -
  assume "0 \<le> s" and "s \<le> t"
  then have "js_times s 200 \<le> js_times t 200"
    unfolding js_times_def by (intro to_double_mono) simp_all
  then have "Math_round (js_times s 200) \<le> Math_round (js_times t 200)"
    by (rule Math_round_mono)
  then show ?thesis
    unfolding spec_rate_def by linarith
qed

lemma calculateRate_nonzero: "s \<noteq> 0 \<Longrightarrow> calculateRate (Some (Num s)) = spec_rate s"
  by (simp add: calculateRate_def spec_rate_def)

lemma calculateRate_range: "80 \<le> calculateRate speed \<and> calculateRate speed \<le> 400"
proof (cases speed)
  case None
  then show ?thesis by (simp add: calculateRate_def)
next
  case (Some x)
  then show ?thesis
    by (cases x) (simp_all add: calculateRate_def Let_def)
qed

lemma calculateRate_mono:
  "0 < s \<Longrightarrow> s \<le> t \<Longrightarrow> calculateRate (Some (Num s)) \<le> calculateRate (Some (Num t))"
  by (simp add: calculateRate_nonzero spec_rate_mono)

lemma spec_rate_tenth: "spec_rate (to_double (1 / 10)) = 80"
  unfolding spec_rate_def js_times_def double_tenth
  by (simp add: to_double_eval [of 4] round_half_even_def Let_def Math_round_def)

lemma spec_rate_one: "spec_rate 1 = 200"
  unfolding spec_rate_def js_times_def
  by (simp add: to_double_eval [of 7] round_half_even_def Let_def Math_round_def)

lemma spec_rate_three: "spec_rate 3 = 400"
  unfolding spec_rate_def js_times_def
  by (simp add: to_double_eval [of 9] round_half_even_def Let_def Math_round_def)

lemma spec_rate_half: "spec_rate (1 / 2) = 100"
  unfolding spec_rate_def js_times_def
  by (simp add: to_double_eval [of 6] round_half_even_def Let_def Math_round_def)

text \<open>
  The product of doubles is not the exact product: the double that \<open>1.0025\<close> denotes
  lies below 1.0025, its product with 200 is the double 200.5, and the rate is 201.
\<close>

lemma spec_rate_1_0025: "spec_rate (to_double (10025 / 10000)) = 201"
  unfolding spec_rate_def js_times_def double_1_0025
  by (simp add: to_double_eval [of 7] round_half_even_def Let_def Math_round_def)

lemma calculateRate_1_0025: "calculateRate (Some (Num (to_double (10025 / 10000)))) = 201"
proof -
  have "to_double (10025 / 10000) \<noteq> 0"
    unfolding double_1_0025 by simp
  from calculateRate_nonzero [OF this] show ?thesis
    unfolding spec_rate_1_0025 .
qed

text \<open>
  Claim C4. For every speed of the range 0.1 to 3.0 of a synthesis request, the rate
  of the native-command engine is \<open>clamp(round(speed * 200), 80, 400)\<close>, and it is
  monotonic non-decreasing in the speed; the rate lies in \<open>[80, 400]\<close> for every speed
  whatever; and speed 0.1 gives the rate 80, speed 1.0 the rate 200 and speed 3.0 the
  rate 400.
\<close>

theorem calculateRate_clamped:
  "1 / 10 \<le> s \<Longrightarrow> s \<le> t \<Longrightarrow> t \<le> 3 \<Longrightarrow>
     calculateRate (Some (Num s)) = spec_rate s \<and>
     calculateRate (Some (Num s)) \<le> calculateRate (Some (Num t)) \<and>
     80 \<le> calculateRate speed \<and> calculateRate speed \<le> 400 \<and>
     calculateRate (Some (Num (to_double (1 / 10)))) = 80 \<and>
     calculateRate (Some (Num 1)) = 200 \<and>
     calculateRate (Some (Num 3)) = 400"
proof -
  assume s: "1 / 10 \<le> s" and st: "s \<le> t" and "t \<le> 3"
  from s have pos: "0 < s" by simp
  have tenth: "to_double (1 / 10) \<noteq> 0"
    by (simp add: double_tenth)
  have "calculateRate (Some (Num (to_double (1 / 10)))) = 80"
    "calculateRate (Some (Num 1)) = 200" "calculateRate (Some (Num 3)) = 400"
    by (simp_all add: calculateRate_nonzero tenth spec_rate_tenth spec_rate_one spec_rate_three)
  moreover from pos have "calculateRate (Some (Num s)) = spec_rate s"
    by (simp add: calculateRate_nonzero)
  moreover note calculateRate_mono [OF pos st] calculateRate_range [of speed]
  ultimately show ?thesis by blast
qed

theorem calculateRate_clamped_witness:
  "(1 / 10 :: real) \<le> 1 / 2 \<and> (1 / 2 :: real) \<le> 5 / 2 \<and> (5 / 2 :: real) \<le> 3 \<and>
   calculateRate (Some (Num (1 / 2))) = spec_rate (1 / 2) \<and>
   calculateRate (Some (Num (1 / 2))) = 100 \<and>
   calculateRate (Some (Num (1 / 2))) \<le> calculateRate (Some (Num (5 / 2)))"
proof -
  have h: "(1 / 10 :: real) \<le> 1 / 2" "(1 / 2 :: real) \<le> 5 / 2" "(5 / 2 :: real) \<le> 3"
    by simp_all
  from calculateRate_clamped [OF h, of None] h spec_rate_half
  show ?thesis by simp
qed


subsection \<open>Voice resolution\<close>

lemma macos_resolve_explicit:
  assumes "r \<noteq> []"
  shows "(macos_resolveVoice vs (Some r) = Inl (TTSError VOICE_NOT_FOUND (Some ''macos'')) \<longleftrightarrow>
            (\<forall>v \<in> set vs. \<not> macos_voice_matches r v))"
    and "(\<exists>v \<in> set vs. macos_voice_matches r v) \<longleftrightarrow>
            (\<exists>v \<in> set vs. macos_voice_matches r v \<and>
                            macos_resolveVoice vs (Some r) = Inr (Some v))"
  using assms
  by (auto simp: macos_resolveVoice_def truthy_def find_None_all
           split: option.splits dest: find_Some_D)

lemma kokoro_resolve_explicit:
  assumes "r \<noteq> []"
  shows "(kokoro_resolveVoice vs (Some r) = Inl (TTSError VOICE_NOT_FOUND (Some ''kokoro'')) \<longleftrightarrow>
            (\<forall>v \<in> set vs. \<not> kokoro_voice_matches r v))"
    and "(\<exists>v \<in> set vs. kokoro_voice_matches r v) \<longleftrightarrow>
            (\<exists>v \<in> set vs. kokoro_voice_matches r v \<and>
                            kokoro_resolveVoice vs (Some r) = Inr (Some v))"
  using assms
  by (auto simp: kokoro_resolveVoice_def truthy_def find_None_all
           split: option.splits dest: find_Some_D)

lemma kokoro_default: "kokoro_resolveVoice kokoro_catalog None = Inr (Some af_sarah)"
  by (simp add: kokoro_resolveVoice_def truthy_def kokoro_catalog_def kv_def af_sarah_def)

lemma macos_omitted:
  assumes "\<not> truthy rv"
  shows "\<exists>x. macos_resolveVoice vs rv = Inr x"
    and "vs \<noteq> [] \<Longrightarrow>
           \<exists>v \<in> set vs. macos_resolveVoice vs rv = Inr (Some v) \<and>
             ((\<exists>w \<in> set vs. v_name w = ''Alex'') \<longrightarrow> v_name v = ''Alex'') \<and>
             ((\<forall>w \<in> set vs. v_name w \<noteq> ''Alex'') \<longrightarrow> v = hd vs)"
  using assms
  by (cases vs; auto simp: macos_resolveVoice_def find_None_all
        split: option.splits dest: find_Some_D)+

lemma kokoro_omitted:
  assumes "\<not> truthy rv"
  shows "\<exists>x. kokoro_resolveVoice vs rv = Inr x"
    and "vs \<noteq> [] \<Longrightarrow>
           \<exists>v \<in> set vs. kokoro_resolveVoice vs rv = Inr (Some v) \<and>
             ((\<exists>w \<in> set vs. v_id w = ''kokoro-af_sarah'') \<longrightarrow> v_id v = ''kokoro-af_sarah'') \<and>
             ((\<forall>w \<in> set vs. v_id w \<noteq> ''kokoro-af_sarah'') \<longrightarrow> v = hd vs)"
  using assms
  by (cases vs; auto simp: kokoro_resolveVoice_def find_None_all
        split: option.splits dest: find_Some_D)+

text \<open>
  Claim C2 as stated fails in both halves. No voice of the Kokoro catalogue has the
  name or the id \<open>sarah\<close>, in any case, and yet the request for \<open>sarah\<close> is resolved, to
  the voice \<open>AF_SARAH\<close> whose name contains it. And the voice that the macOS engine
  takes for a request without a voice is not a fixed one: on a catalogue that does not
  list \<open>Alex\<close> it is the first voice listed.
\<close>

theorem kokoro_substring_counterexample:
  "filter (spec_voice_matches ''sarah'') kokoro_catalog = [] \<and>
   kokoro_resolveVoice kokoro_catalog (Some ''sarah'') = Inr (Some af_sarah) \<and>
   macos_resolveVoice [samantha] None = Inr (Some samantha) \<and>
   macos_resolveVoice [amelie, samantha] None = Inr (Some amelie)"
  by (simp add: kokoro_resolveVoice_def kokoro_voice_matches_def spec_voice_matches_def
        macos_resolveVoice_def samantha_def amelie_def
        truthy_def kokoro_catalog_def kv_def af_sarah_def lower_eval)

text \<open>
  Claim C2, amended. For every request that names a voice, the macOS engine resolves it
  to a voice whose name or id equals the request, case ignored, and the Kokoro engine to
  a voice whose name or id equals the request or whose name contains it, case ignored;
  each fails with \<open>VOICE_NOT_FOUND\<close> exactly when its catalogue has no such voice. For
  every request that omits the voice (or gives the empty string), resolution never
  fails, and on a catalogue that is not empty it succeeds with the default voice of
  the engine: the voice named \<open>Alex\<close> for the macOS engine, the voice with the id
  \<open>kokoro-af_sarah\<close> for the Kokoro engine, and the first voice of the catalogue when
  that one is not listed; on the catalogue that the Kokoro engine loads it is
  \<open>kokoro-af_sarah\<close>.
\<close>

theorem resolveVoice_matching:
  "(r \<noteq> [] \<longrightarrow>
     (macos_resolveVoice vs (Some r) = Inl (TTSError VOICE_NOT_FOUND (Some ''macos'')) \<longleftrightarrow>
        (\<forall>v \<in> set vs. \<not> (toLowerCase (v_name v) = toLowerCase r \<or>
                              toLowerCase (v_id v) = toLowerCase r))) \<and>
     ((\<exists>v \<in> set vs. toLowerCase (v_name v) = toLowerCase r \<or>
                      toLowerCase (v_id v) = toLowerCase r) \<longleftrightarrow>
        (\<exists>v \<in> set vs. (toLowerCase (v_name v) = toLowerCase r \<or>
                         toLowerCase (v_id v) = toLowerCase r) \<and>
                        macos_resolveVoice vs (Some r) = Inr (Some v))) \<and>
     (kokoro_resolveVoice kvs (Some r) = Inl (TTSError VOICE_NOT_FOUND (Some ''kokoro'')) \<longleftrightarrow>
        (\<forall>v \<in> set kvs. \<not> (toLowerCase (v_name v) = toLowerCase r \<or>
                               toLowerCase (v_id v) = toLowerCase r \<or>
                               str_includes (toLowerCase (v_name v)) (toLowerCase r)))) \<and>
     ((\<exists>v \<in> set kvs. toLowerCase (v_name v) = toLowerCase r \<or>
                       toLowerCase (v_id v) = toLowerCase r \<or>
                       str_includes (toLowerCase (v_name v)) (toLowerCase r)) \<longleftrightarrow>
        (\<exists>v \<in> set kvs. (toLowerCase (v_name v) = toLowerCase r \<or>
                          toLowerCase (v_id v) = toLowerCase r \<or>
                          str_includes (toLowerCase (v_name v)) (toLowerCase r)) \<and>
                         kokoro_resolveVoice kvs (Some r) = Inr (Some v)))) \<and>
   (\<not> truthy rv \<longrightarrow>
     (\<exists>x. macos_resolveVoice vs rv = Inr x) \<and>
     (vs \<noteq> [] \<longrightarrow>
        (\<exists>v \<in> set vs. macos_resolveVoice vs rv = Inr (Some v) \<and>
           ((\<exists>w \<in> set vs. v_name w = ''Alex'') \<longrightarrow> v_name v = ''Alex'') \<and>
           ((\<forall>w \<in> set vs. v_name w \<noteq> ''Alex'') \<longrightarrow> v = hd vs))) \<and>
     (\<exists>x. kokoro_resolveVoice kvs rv = Inr x) \<and>
     (kvs \<noteq> [] \<longrightarrow>
        (\<exists>v \<in> set kvs. kokoro_resolveVoice kvs rv = Inr (Some v) \<and>
           ((\<exists>w \<in> set kvs. v_id w = ''kokoro-af_sarah'') \<longrightarrow> v_id v = ''kokoro-af_sarah'') \<and>
           ((\<forall>w \<in> set kvs. v_id w \<noteq> ''kokoro-af_sarah'') \<longrightarrow> v = hd kvs)))) \<and>
   kokoro_resolveVoice kokoro_catalog None = Inr (Some af_sarah)"
proof -
  have explicit: "r \<noteq> [] \<longrightarrow>
     (macos_resolveVoice vs (Some r) = Inl (TTSError VOICE_NOT_FOUND (Some ''macos'')) \<longleftrightarrow>
        (\<forall>v \<in> set vs. \<not> macos_voice_matches r v)) \<and>
     ((\<exists>v \<in> set vs. macos_voice_matches r v) \<longleftrightarrow>
        (\<exists>v \<in> set vs. macos_voice_matches r v \<and> macos_resolveVoice vs (Some r) = Inr (Some v))) \<and>
     (kokoro_resolveVoice kvs (Some r) = Inl (TTSError VOICE_NOT_FOUND (Some ''kokoro'')) \<longleftrightarrow>
        (\<forall>v \<in> set kvs. \<not> kokoro_voice_matches r v)) \<and>
     ((\<exists>v \<in> set kvs. kokoro_voice_matches r v) \<longleftrightarrow>
        (\<exists>v \<in> set kvs. kokoro_voice_matches r v \<and>
                         kokoro_resolveVoice kvs (Some r) = Inr (Some v)))"
    using macos_resolve_explicit [of r vs] kokoro_resolve_explicit [of r kvs] by blast
  have omitted: "\<not> truthy rv \<longrightarrow>
     (\<exists>x. macos_resolveVoice vs rv = Inr x) \<and>
     (vs \<noteq> [] \<longrightarrow>
        (\<exists>v \<in> set vs. macos_resolveVoice vs rv = Inr (Some v) \<and>
           ((\<exists>w \<in> set vs. v_name w = ''Alex'') \<longrightarrow> v_name v = ''Alex'') \<and>
           ((\<forall>w \<in> set vs. v_name w \<noteq> ''Alex'') \<longrightarrow> v = hd vs))) \<and>
     (\<exists>x. kokoro_resolveVoice kvs rv = Inr x) \<and>
     (kvs \<noteq> [] \<longrightarrow>
        (\<exists>v \<in> set kvs. kokoro_resolveVoice kvs rv = Inr (Some v) \<and>
           ((\<exists>w \<in> set kvs. v_id w = ''kokoro-af_sarah'') \<longrightarrow> v_id v = ''kokoro-af_sarah'') \<and>
           ((\<forall>w \<in> set kvs. v_id w \<noteq> ''kokoro-af_sarah'') \<longrightarrow> v = hd kvs)))"
    using macos_omitted [of rv vs] kokoro_omitted [of rv kvs] by blast
  from explicit [unfolded macos_voice_matches_def kokoro_voice_matches_def] omitted kokoro_default
  show ?thesis by (intro conjI)
qed

theorem resolveVoice_matching_witness:
  "macos_resolveVoice [samantha, amelie, alex] (Some ''ALEX'') = Inr (Some alex) \<and>
   macos_resolveVoice [samantha, amelie, alex] (Some (''AM'' @ [CHR 0xC9] @ ''LIE'')) =
     Inr (Some amelie) \<and>
   macos_resolveVoice [samantha, amelie, alex] (Some ''Bob'') =
     Inl (TTSError VOICE_NOT_FOUND (Some ''macos'')) \<and>
   kokoro_resolveVoice [] (Some ''Bob'') = Inl (TTSError VOICE_NOT_FOUND (Some ''kokoro'')) \<and>
   macos_resolveVoice [samantha, amelie, alex] None = Inr (Some alex) \<and>
   macos_resolveVoice [samantha, amelie] (Some []) = Inr (Some samantha)"
proof -
  let ?vs = "[samantha, amelie, alex]"
  let ?am = "''AM'' @ [CHR 0xC9] @ ''LIE''"
  have n: "''ALEX'' \<noteq> []" "''Bob'' \<noteq> []" "?am \<noteq> []"
    by simp_all
  have o: "\<not> truthy None" "\<not> truthy (Some [])"
    by (simp_all add: truthy_def)
  have ne: "?vs \<noteq> []" "[samantha, amelie] \<noteq> []"
    by simp_all
  have a: "\<exists>v \<in> set ?vs. toLowerCase (v_name v) = toLowerCase ''ALEX'' \<or>
             toLowerCase (v_id v) = toLowerCase ''ALEX''"
    by (simp add: alex_def samantha_def amelie_def lower_eval)
  have a': "\<exists>v \<in> set ?vs. toLowerCase (v_name v) = toLowerCase ?am \<or>
             toLowerCase (v_id v) = toLowerCase ?am"
    by (simp add: alex_def samantha_def amelie_def lower_eval)
  have b: "\<forall>v \<in> set ?vs. \<not> (toLowerCase (v_name v) = toLowerCase ''Bob'' \<or>
             toLowerCase (v_id v) = toLowerCase ''Bob'')"
    by (simp add: alex_def samantha_def amelie_def lower_eval)
  have c: "\<exists>v \<in> set ?vs. v_name v = ''Alex''"
    by (simp add: alex_def)
  have c': "\<forall>w \<in> set [samantha, amelie]. v_name w \<noteq> ''Alex''"
    by (simp add: samantha_def amelie_def)
  have d: "\<And>v. v \<in> set ?vs \<Longrightarrow> toLowerCase (v_name v) = toLowerCase ''ALEX'' \<or>
             toLowerCase (v_id v) = toLowerCase ''ALEX'' \<Longrightarrow> v = alex"
    by (auto simp: alex_def samantha_def amelie_def lower_eval)
  have d': "\<And>v. v \<in> set ?vs \<Longrightarrow> toLowerCase (v_name v) = toLowerCase ?am \<or>
             toLowerCase (v_id v) = toLowerCase ?am \<Longrightarrow> v = amelie"
    by (auto simp: alex_def samantha_def amelie_def lower_eval)
  have e: "\<And>v. v \<in> set ?vs \<Longrightarrow> v_name v = ''Alex'' \<Longrightarrow> v = alex"
    by (auto simp: alex_def samantha_def amelie_def)
  note A = resolveVoice_matching [of "''ALEX''" ?vs "[]" None, THEN conjunct1, THEN mp, OF n(1)]
  from A [THEN conjunct2, THEN conjunct1] a
  obtain v where "v \<in> set ?vs"
    and "toLowerCase (v_name v) = toLowerCase ''ALEX'' \<or>
         toLowerCase (v_id v) = toLowerCase ''ALEX''"
    and "macos_resolveVoice ?vs (Some ''ALEX'') = Inr (Some v)"
    by blast
  with d have 1: "macos_resolveVoice ?vs (Some ''ALEX'') = Inr (Some alex)"
    by blast
  note A' = resolveVoice_matching [of ?am ?vs "[]" None, THEN conjunct1, THEN mp, OF n(3)]
  from A' [THEN conjunct2, THEN conjunct1] a'
  obtain v' where "v' \<in> set ?vs"
    and "toLowerCase (v_name v') = toLowerCase ?am \<or>
         toLowerCase (v_id v') = toLowerCase ?am"
    and "macos_resolveVoice ?vs (Some ?am) = Inr (Some v')"
    by blast
  with d' have 2: "macos_resolveVoice ?vs (Some ?am) = Inr (Some amelie)"
    by blast
  note B = resolveVoice_matching [of "''Bob''" ?vs "[]" None, THEN conjunct1, THEN mp, OF n(2)]
  from B [THEN conjunct1] b
  have 3: "macos_resolveVoice ?vs (Some ''Bob'') =
             Inl (TTSError VOICE_NOT_FOUND (Some ''macos''))"
    by blast
  from B [THEN conjunct2, THEN conjunct2, THEN conjunct1]
  have 4: "kokoro_resolveVoice [] (Some ''Bob'') = Inl (TTSError VOICE_NOT_FOUND (Some ''kokoro''))"
    by simp
  note C = resolveVoice_matching [of "''Bob''" ?vs "[]" None, THEN conjunct2, THEN conjunct1,
      THEN mp, OF o(1)]
  from C [THEN conjunct2, THEN conjunct1, THEN mp, OF ne(1)] c
  obtain w where "w \<in> set ?vs" and "macos_resolveVoice ?vs None = Inr (Some w)"
    and "v_name w = ''Alex''"
    by blast
  with e have 5: "macos_resolveVoice ?vs None = Inr (Some alex)"
    by blast
  note D = resolveVoice_matching [of "''Bob''" "[samantha, amelie]" "[]" "Some []",
      THEN conjunct2, THEN conjunct1, THEN mp, OF o(2)]
  from D [THEN conjunct2, THEN conjunct1, THEN mp, OF ne(2)] c'
  obtain w' where "macos_resolveVoice [samantha, amelie] (Some []) = Inr (Some w')"
    and "w' = hd [samantha, amelie]"
    by blast
  then have 6: "macos_resolveVoice [samantha, amelie] (Some []) = Inr (Some samantha)"
    by simp
  from 1 2 3 4 5 6 show ?thesis by blast
qed


subsection \<open>The limit on the length of the text\<close>

lemma macos_prepare_long:
  "50000 < length (r_text request) \<Longrightarrow>
     macos_prepare host request eng =
       (case macos_initialize host eng of
          (Some e, eng1) \<Rightarrow> (Inl e, eng1)
        | (None, eng1) \<Rightarrow>
            (Inl (TTSError (if trim (r_text request) = [] then INVALID_PARAMETERS
                            else TEXT_TOO_LONG) (Some ''macos'')), eng1))"
  by (auto simp: macos_prepare_def split: prod.splits option.splits)

lemma kokoro_prepare_long:
  "50000 < length (r_text request) \<Longrightarrow>
     kokoro_prepare host request eng =
       (case kokoro_initialize host eng of
          (Some e, eng1) \<Rightarrow> (Inl e, eng1)
        | (None, eng1) \<Rightarrow>
            (Inl (TTSError (if trim (r_text request) = [] then INVALID_PARAMETERS
                            else TEXT_TOO_LONG) (Some ''kokoro'')), eng1))"
  by (auto simp: kokoro_prepare_def split: prod.splits option.splits)

lemma macos_long:
  assumes "50000 < length (r_text request)"
  shows "isl (fst (macos_synthesize host request eng fs))"
    and "snd (snd (macos_synthesize host request eng fs)) = fs"
    and "fst (macos_initialize host eng) = None \<Longrightarrow>
           fst (macos_synthesize host request eng fs) =
             Inl (TTSError (if trim (r_text request) = [] then INVALID_PARAMETERS
                            else TEXT_TOO_LONG) (Some ''macos''))"
  by (cases "macos_initialize host eng";
      auto simp: macos_synthesize_def macos_prepare_long [OF assms] split: option.splits)+

lemma kokoro_long:
  assumes "50000 < length (r_text request)"
  shows "isl (fst (kokoro_synthesize host request eng fs))"
    and "snd (snd (kokoro_synthesize host request eng fs)) = fs"
    and "fst (kokoro_initialize host eng) = None \<Longrightarrow>
           fst (kokoro_synthesize host request eng fs) =
             Inl (TTSError (if trim (r_text request) = [] then INVALID_PARAMETERS
                            else TEXT_TOO_LONG) (Some ''kokoro''))"
  by (cases "kokoro_initialize host eng";
      auto simp: kokoro_synthesize_def kokoro_prepare_long [OF assms] split: option.splits)+

lemma parse_long:
  "50000 < length text \<Longrightarrow> raw_text params = Some text \<Longrightarrow>
     synthesizeTextSchema_parse params = Inl ZodError"
  by (auto simp: synthesizeTextSchema_parse_def split: option.splits)

text \<open>
  Claim C1 as stated fails for a text of 50,001 blanks: both engines test for an empty
  or blank text first and reject it with \<open>INVALID_PARAMETERS\<close>, not with
  \<open>TEXT_TOO_LONG\<close>.
\<close>

theorem blank_long_text_counterexample:
  "50000 < length (r_text (sample_request (replicate 50001 CHR '' ''))) \<and>
   fst (macos_synthesize (sample_macos_run TimedOut) (sample_request (replicate 50001 CHR '' ''))
          sample_macos_engine Map.empty) = Inl (TTSError INVALID_PARAMETERS (Some ''macos'')) \<and>
   fst (kokoro_synthesize (sample_kokoro_run TimedOut TimedOut)
          (sample_request (replicate 50001 CHR '' '')) sample_kokoro_engine Map.empty) =
     Inl (TTSError INVALID_PARAMETERS (Some ''kokoro''))"
proof -
  have t: "trim (r_text (sample_request (replicate 50001 CHR '' ''))) = []"
    by (simp add: sample_request_def trim_replicate is_space_def)
  from macos_long(3) [OF sample_long [of "CHR '' ''"] sample_macos_initialized [of TimedOut],
      where fs = Map.empty]
    kokoro_long(3) [OF sample_long [of "CHR '' ''"] sample_kokoro_initialized [of TimedOut TimedOut],
      where fs = Map.empty]
    t sample_long [of "CHR '' ''"]
  show ?thesis by simp
qed

text \<open>
  Claim C1, amended. For every synthesis request whose text is longer than 50,000
  characters, no engine produces an audio result, and the files are left as they were;
  an engine whose initialisation does not fail rejects the text with \<open>TEXT_TOO_LONG\<close>
  unless the text is blank, and with \<open>INVALID_PARAMETERS\<close> if it is; and the schema of
  the \<open>synthesize_text\<close> tool rejects such a text before any engine is called.
\<close>

theorem long_text_rejected:
  "50000 < length (r_text request) \<Longrightarrow>
     isl (fst (macos_synthesize host request eng fs)) \<and>
     snd (snd (macos_synthesize host request eng fs)) = fs \<and>
     (fst (macos_initialize host eng) = None \<longrightarrow>
        fst (macos_synthesize host request eng fs) =
          Inl (TTSError (if trim (r_text request) = [] then INVALID_PARAMETERS
                         else TEXT_TOO_LONG) (Some ''macos''))) \<and>
     isl (fst (kokoro_synthesize khost request keng kfs)) \<and>
     snd (snd (kokoro_synthesize khost request keng kfs)) = kfs \<and>
     (fst (kokoro_initialize khost keng) = None \<longrightarrow>
        fst (kokoro_synthesize khost request keng kfs) =
          Inl (TTSError (if trim (r_text request) = [] then INVALID_PARAMETERS
                         else TEXT_TOO_LONG) (Some ''kokoro''))) \<and>
     (raw_text params = Some (r_text request) \<longrightarrow>
        synthesizeTextSchema_parse params = Inl ZodError)"
  using macos_long [of request host eng fs] kokoro_long [of request khost keng kfs]
    parse_long [of "r_text request" params]
  by blast

theorem long_text_rejected_witness:
  "50000 < length (r_text (sample_request (replicate 50001 CHR ''a''))) \<and>
   fst (macos_initialize (sample_macos_run TimedOut) sample_macos_engine) = None \<and>
   fst (macos_synthesize (sample_macos_run TimedOut) (sample_request (replicate 50001 CHR ''a''))
          sample_macos_engine Map.empty) = Inl (TTSError TEXT_TOO_LONG (Some ''macos'')) \<and>
   fst (kokoro_initialize (sample_kokoro_run TimedOut TimedOut) sample_kokoro_engine) = None \<and>
   fst (kokoro_synthesize (sample_kokoro_run TimedOut TimedOut)
          (sample_request (replicate 50001 CHR ''a'')) sample_kokoro_engine Map.empty) =
     Inl (TTSError TEXT_TOO_LONG (Some ''kokoro'')) \<and>
   synthesizeTextSchema_parse (long_params CHR ''a'') = Inl ZodError \<and>
   fst (macos_synthesize (sample_macos_run TimedOut) (sample_request (replicate 50001 (CHR 0xA0)))
          sample_macos_engine Map.empty) = Inl (TTSError INVALID_PARAMETERS (Some ''macos'')) \<and>
   fst (kokoro_synthesize (sample_kokoro_run TimedOut TimedOut)
          (sample_request (replicate 50001 (CHR 0xA0))) sample_kokoro_engine Map.empty) =
     Inl (TTSError INVALID_PARAMETERS (Some ''kokoro''))"
proof -
  have t: "trim (r_text (sample_request (replicate 50001 CHR ''a''))) \<noteq> []"
    by (simp add: sample_request_def trim_replicate is_space_def)
  have t': "trim (r_text (sample_request (replicate 50001 (CHR 0xA0)))) = []"
    by (simp add: sample_request_def trim_replicate is_space_def)
  have r: "raw_text (long_params CHR ''a'') =
             Some (r_text (sample_request (replicate 50001 CHR ''a'')))"
    by (simp add: sample_request_def long_params_def)
  from long_text_rejected [where request = "sample_request (replicate 50001 CHR ''a'')"
      and host = "sample_macos_run TimedOut" and eng = sample_macos_engine and fs = Map.empty
      and khost = "sample_kokoro_run TimedOut TimedOut" and keng = sample_kokoro_engine
      and kfs = Map.empty and params = "long_params CHR ''a''"]
    long_text_rejected [where request = "sample_request (replicate 50001 (CHR 0xA0))"
      and host = "sample_macos_run TimedOut" and eng = sample_macos_engine and fs = Map.empty
      and khost = "sample_kokoro_run TimedOut TimedOut" and keng = sample_kokoro_engine
      and kfs = Map.empty and params = "long_params CHR ''a''"]
    sample_macos_initialized [of TimedOut] sample_kokoro_initialized [of TimedOut TimedOut]
    t t' r sample_long [of "CHR ''a''"] sample_long [of "CHR 0xA0"]
  show ?thesis by simp
qed


subsection \<open>The success marker of the Kokoro run\<close>

text \<open>
  Claim C5. A run of the Kokoro synthesis subprocess counts as successful if and only
  if the subprocess exits with code 0 and its stdout contains the marker \<open>SUCCESS\<close>; an
  exit with code 0 without the marker is the failure \<open>SYNTHESIS_FAILED\<close>.
\<close>

theorem kokoro_success_marker:
  "truthy pythonExecutable \<Longrightarrow>
     (executeKokoro pythonExecutable outcome = Inr () \<longleftrightarrow>
        (\<exists>out err. outcome = Closed (Some 0) out err \<and> str_includes out ''SUCCESS'')) \<and>
     (\<not> str_includes out' ''SUCCESS'' \<longrightarrow>
        executeKokoro pythonExecutable (Closed (Some 0) out' err') =
          Inl (TTSError SYNTHESIS_FAILED (Some ''kokoro'')))"
  by (cases outcome) (auto simp: executeKokoro_def)

theorem kokoro_success_marker_witness:
  "truthy (Some ''python3'') \<and>
   executeKokoro (Some ''python3'') (Closed (Some 0) ''Pipeline ok SUCCESS'' []) = Inr () \<and>
   \<not> str_includes ''Kokoro TTS synthesis complete'' ''SUCCESS'' \<and>
   executeKokoro (Some ''python3'') (Closed (Some 0) ''Kokoro TTS synthesis complete'' []) =
     Inl (TTSError SYNTHESIS_FAILED (Some ''kokoro''))"
proof -
  have t: "truthy (Some ''python3'')"
    by (simp add: truthy_def)
  have i: "str_includes ''Pipeline ok SUCCESS'' ''SUCCESS''"
    by simp
  have n: "\<not> str_includes ''Kokoro TTS synthesis complete'' ''SUCCESS''"
    by simp
  from kokoro_success_marker
         [OF t, of "Closed (Some 0) ''Pipeline ok SUCCESS'' []"
            "''Kokoro TTS synthesis complete''" "[]"]
    t i n
  show ?thesis by blast
qed


subsection \<open>Cleaning up after a failed synthesis\<close>

lemma unlink_quietly_gone: "unlink_quietly p fs p = None"
  by (auto simp: unlink_quietly_def unlink_def)

lemma macos_attempt_tagged:
  "macos_attempt host request voice outputPath fs = (Inl e, fs1) \<Longrightarrow>
     \<exists>c. rethrow ''macos'' e = TTSError c (Some ''macos'')"
  by (auto simp: macos_attempt_def executeSay_def stat_def rethrow_def Let_def
           split: if_splits sum.splits proc_outcome.splits option.splits)

lemma kokoro_attempt_tagged:
  "kokoro_attempt host request eng voice outputPath fs = (Inl e, fs1) \<Longrightarrow>
     \<exists>c. rethrow ''kokoro'' e = TTSError c (Some ''kokoro'')"
  by (auto simp: kokoro_attempt_def executeKokoro_def stat_def unlink_def rethrow_def Let_def
           split: if_splits sum.splits proc_outcome.splits option.splits)

lemma macos_failure_cleans:
  assumes "macos_prepare host request eng = (Inr (voice, outputPath), eng1)"
    and "macos_synthesize host request eng fs = (Inl e, eng2, fs')"
  shows "fs' outputPath = None \<and> (\<exists>c. e = TTSError c (Some ''macos''))"
proof (cases "macos_attempt host request voice outputPath fs")
  case (Pair res fs1)
  show ?thesis
  proof (cases res)
    case (Inl x)
    with Pair assms macos_attempt_tagged [of host request voice outputPath fs x fs1]
    show ?thesis
      by (auto simp: macos_synthesize_def unlink_quietly_gone)
  next
    case (Inr r)
    with Pair assms show ?thesis
      by (simp add: macos_synthesize_def)
  qed
qed

lemma kokoro_failure_cleans:
  assumes "kokoro_prepare host request eng = (Inr (voice, outputPath), eng1)"
    and "kokoro_synthesize host request eng fs = (Inl e, eng2, fs')"
  shows "fs' outputPath = None \<and> (\<exists>c. e = TTSError c (Some ''kokoro''))"
proof (cases "kokoro_attempt host request eng1 voice outputPath fs")
  case (Pair res fs1)
  show ?thesis
  proof (cases res)
    case (Inl x)
    with Pair assms kokoro_attempt_tagged [of host request eng1 voice outputPath fs x fs1]
    show ?thesis
      by (auto simp: kokoro_synthesize_def unlink_quietly_gone)
  next
    case (Inr r)
    with Pair assms show ?thesis
      by (simp add: kokoro_synthesize_def)
  qed
qed

text \<open>
  Claim C6. Whenever a synthesis call of either engine fails after its output path has
  been determined, the files it leaves hold nothing at that path, whatever the
  subprocess had written there, and the error it throws is a \<open>TTSError\<close> tagged with
  the engine.
\<close>

theorem failed_synthesis_removes_output:
  "(macos_prepare host request eng = (Inr (voice, outputPath), eng1) \<longrightarrow>
    macos_synthesize host request eng fs = (Inl e, eng2, fs') \<longrightarrow>
      fs' outputPath = None \<and> (\<exists>c. e = TTSError c (Some ''macos''))) \<and>
   (kokoro_prepare khost krequest keng = (Inr (kvoice, koutputPath), keng1) \<longrightarrow>
    kokoro_synthesize khost krequest keng kfs = (Inl ke, keng2, kfs') \<longrightarrow>
      kfs' koutputPath = None \<and> (\<exists>c. ke = TTSError c (Some ''kokoro'')))"
  using macos_failure_cleans [of host request eng voice outputPath eng1 fs e eng2 fs']
    kokoro_failure_cleans [of khost krequest keng kvoice koutputPath keng1 kfs ke keng2 kfs']
  by blast

theorem failed_synthesis_removes_output_witness:
  "macos_prepare (sample_macos_run (Closed (Some 1) [] ''say: error''))
     (sample_request ''Hello, world!'') sample_macos_engine =
     (Inr (alex, ''/out/macos_Alex_2026-01-02T03-04-05_hello_world.aiff''), sample_macos_engine) \<and>
   macos_synthesize (sample_macos_run (Closed (Some 1) [] ''say: error''))
     (sample_request ''Hello, world!'') sample_macos_engine Map.empty =
     (Inl (TTSError SYNTHESIS_FAILED (Some ''macos'')), sample_macos_engine, Map.empty) \<and>
   kokoro_prepare (sample_kokoro_run TimedOut (Closed (Some 1) [] ''Kokoro synthesis error''))
     (sample_request ''Hello, world!'') sample_kokoro_engine =
     (Inr (af_sarah, ''/out/kokoro_AF_SARAH_2026-01-02T03-04-05_hello_world.wav''),
      sample_kokoro_engine) \<and>
   fst (kokoro_synthesize
          (sample_kokoro_run TimedOut (Closed (Some 1) [] ''Kokoro synthesis error''))
          (sample_request ''Hello, world!'') sample_kokoro_engine Map.empty) =
     Inl (TTSError SYNTHESIS_FAILED (Some ''kokoro'')) \<and>
   snd (snd (kokoro_synthesize
          (sample_kokoro_run TimedOut (Closed (Some 1) [] ''Kokoro synthesis error''))
          (sample_request ''Hello, world!'') sample_kokoro_engine Map.empty))
     ''/out/kokoro_AF_SARAH_2026-01-02T03-04-05_hello_world.wav'' = None"
  using failed_synthesis_removes_output
    [of "sample_macos_run (Closed (Some 1) [] ''say: error'')" "sample_request ''Hello, world!''"
        sample_macos_engine alex "''/out/macos_Alex_2026-01-02T03-04-05_hello_world.aiff''"
        sample_macos_engine Map.empty "TTSError SYNTHESIS_FAILED (Some ''macos'')"
        sample_macos_engine Map.empty
        "sample_kokoro_run TimedOut (Closed (Some 1) [] ''Kokoro synthesis error'')"
        "sample_request ''Hello, world!''" sample_kokoro_engine af_sarah
        "''/out/kokoro_AF_SARAH_2026-01-02T03-04-05_hello_world.wav''"
        sample_kokoro_engine Map.empty "TTSError SYNTHESIS_FAILED (Some ''kokoro'')"
        sample_kokoro_engine "[''/tmp/kokoro_1767323045678.py'' \<mapsto> 4013]"]
    sample_macos_prepare [of "Closed (Some 1) [] ''say: error''"]
    sample_macos_failure
    sample_kokoro_prepare [of TimedOut "Closed (Some 1) [] ''Kokoro synthesis error''"]
    sample_kokoro_failure
  by simp

lemma kokoro_success_removes_script:
  "kokoro_attempt host request eng voice outputPath fs = (Inr result, fs') \<Longrightarrow>
     fs' (kokoro_scriptPath host eng) = None"
  by (auto simp: kokoro_attempt_def unlink_def stat_def Let_def
           split: if_splits sum.splits option.splits)

text \<open>
  Claim C7 does not hold of the code when the run fails. Here the interpreter exits
  with code 1: the call throws \<open>SYNTHESIS_FAILED\<close>, and the script written for it is
  still in the temp directory afterwards, since only the output path is unlinked on
  the way out.
\<close>

theorem failed_kokoro_run_keeps_script:
  "fst (kokoro_synthesize
          (sample_kokoro_run TimedOut (Closed (Some 1) [] ''Kokoro synthesis error''))
          (sample_request ''Hello, world!'') sample_kokoro_engine Map.empty) =
     Inl (TTSError SYNTHESIS_FAILED (Some ''kokoro'')) \<and>
   kokoro_scriptPath (sample_kokoro_run TimedOut (Closed (Some 1) [] ''Kokoro synthesis error''))
     sample_kokoro_engine = ''/tmp/kokoro_1767323045678.py'' \<and>
   snd (snd (kokoro_synthesize
          (sample_kokoro_run TimedOut (Closed (Some 1) [] ''Kokoro synthesis error''))
          (sample_request ''Hello, world!'') sample_kokoro_engine Map.empty))
     ''/tmp/kokoro_1767323045678.py'' = Some 4013"
  by (simp add: sample_kokoro_failure)
    (simp add: kokoro_scriptPath_def sample_kokoro_run_def sample_kokoro_engine_def)


subsection \<open>Initialisation\<close>

lemma detect_no_unhandled:
  "\<forall>executable. k_verify host executable \<noteq> SpawnError \<Longrightarrow>
     fst (detectPythonEnvironment host eng) \<noteq> Some UnhandledErrorEvent"
  by (auto simp: detectPythonEnvironment_def verifyKokoroInstallation_def Let_def
           split: sum.splits exn.splits proc_outcome.splits if_splits)

lemma kokoro_initialize_returns:
  "\<forall>executable. k_verify host executable \<noteq> SpawnError \<Longrightarrow>
     fst (kokoro_initialize host eng) = None"
  using detect_no_unhandled [of host eng]
  by (auto simp: kokoro_initialize_def split: prod.splits option.splits exn.splits)

lemma kokoro_initialize_flag:
  "kok_initialized (snd (kokoro_initialize host eng)) \<longleftrightarrow>
     kok_initialized eng \<or> fst (detectPythonEnvironment host eng) = None"
  by (auto simp: kokoro_initialize_def detectPythonEnvironment_def Let_def
           split: prod.splits option.splits exn.splits sum.splits)

lemma macos_initialize_cases:
  "(fst (macos_initialize host eng) = None \<and> mac_initialized (snd (macos_initialize host eng))) \<or>
   (macos_initialize host eng = (Some (TTSError ENGINE_NOT_AVAILABLE (Some ''macos'')), eng) \<and>
    \<not> mac_initialized eng)"
  by (auto simp: macos_initialize_def split: option.splits)

lemma macos_initialize_throws_iff:
  "fst (macos_initialize host eng) \<noteq> None \<longleftrightarrow>
     \<not> mac_initialized eng \<and>
     (h_platform host \<noteq> ''darwin'' \<or> \<not> h_which_say host \<or> h_say_voices host = None)"
  by (auto simp: macos_initialize_def split: option.splits)

text \<open>
  Claim C8 as stated fails for the macOS engine: on a platform other than \<open>darwin\<close> its
  \<open>initialize\<close> throws \<open>ENGINE_NOT_AVAILABLE\<close> to the caller.
\<close>

theorem macos_initialize_throws_counterexample:
  "macos_initialize \<lparr>h_platform = ''linux'', h_which_say = False, h_say_voices = None\<rparr>
     (new_MacOSEngine ''/out'' ''/tmp'') =
   (Some (TTSError ENGINE_NOT_AVAILABLE (Some ''macos'')), new_MacOSEngine ''/out'' ''/tmp'')"
  by (simp add: macos_initialize_def new_MacOSEngine_def)

text \<open>
  Claim C8, amended. \<open>initialize\<close> of the Kokoro engine returns without throwing
  whenever its verification subprocess can be spawned, and leaves the engine
  initialised exactly when it was so before or the detection of the interpreter and of
  the package succeeded. \<open>initialize\<close> of the macOS engine either returns with the
  engine initialised, or throws \<open>ENGINE_NOT_AVAILABLE\<close> tagged \<open>macos\<close> and leaves the
  engine as it was, not initialised; it throws exactly when the engine is not yet
  initialised and the platform is not \<open>darwin\<close>, or \<open>which say\<close> or the listing of the
  voices fails.
\<close>

theorem initialize_outcomes:
  "((\<forall>executable. k_verify khost executable \<noteq> SpawnError) \<longrightarrow>
      fst (kokoro_initialize khost keng) = None) \<and>
   (kok_initialized (snd (kokoro_initialize khost keng)) \<longleftrightarrow>
      kok_initialized keng \<or> fst (detectPythonEnvironment khost keng) = None) \<and>
   ((fst (macos_initialize host eng) = None \<and> mac_initialized (snd (macos_initialize host eng))) \<or>
    (macos_initialize host eng = (Some (TTSError ENGINE_NOT_AVAILABLE (Some ''macos'')), eng) \<and>
     \<not> mac_initialized eng)) \<and>
   (fst (macos_initialize host eng) \<noteq> None \<longleftrightarrow>
      \<not> mac_initialized eng \<and>
      (h_platform host \<noteq> ''darwin'' \<or> \<not> h_which_say host \<or> h_say_voices host = None))"
  using kokoro_initialize_returns [of khost keng] kokoro_initialize_flag [of khost keng]
    macos_initialize_cases [of host eng] macos_initialize_throws_iff [of host eng]
  by blast

theorem initialize_outcomes_witness:
  "fst (kokoro_initialize (sample_kokoro_run TimedOut TimedOut) (new_KokoroEngine ''/out'' ''/tmp''))
     = None \<and>
   snd (kokoro_initialize (sample_kokoro_run TimedOut TimedOut) (new_KokoroEngine ''/out'' ''/tmp''))
     = (new_KokoroEngine ''/out'' ''/tmp'')\<lparr>kok_pythonExecutable := Some ''python3''\<rparr> \<and>
   fst (detectPythonEnvironment (sample_kokoro_run TimedOut TimedOut)
          (new_KokoroEngine ''/out'' ''/tmp''))
     = Some (TTSError ENGINE_NOT_AVAILABLE (Some ''kokoro'')) \<and>
   macos_initialize (sample_macos_run TimedOut) (new_MacOSEngine ''/out'' ''/tmp'') =
     (None, sample_macos_engine)"
proof -
  have v: "\<forall>executable. k_verify (sample_kokoro_run TimedOut TimedOut) executable \<noteq> SpawnError"
    by (simp add: sample_kokoro_run_def)
  have d: "detectPythonEnvironment (sample_kokoro_run TimedOut TimedOut)
             (new_KokoroEngine ''/out'' ''/tmp'') =
           (Some (TTSError ENGINE_NOT_AVAILABLE (Some ''kokoro'')),
            (new_KokoroEngine ''/out'' ''/tmp'')\<lparr>kok_pythonExecutable := Some ''python3''\<rparr>)"
    by (simp add: sample_kokoro_run_def new_KokoroEngine_def detectPythonEnvironment_def
          findPythonExecutable_def python_works_def testPythonExecutable_def
          verifyKokoroInstallation_def truthy_def)
  have k: "snd (kokoro_initialize (sample_kokoro_run TimedOut TimedOut)
                  (new_KokoroEngine ''/out'' ''/tmp'')) =
           (new_KokoroEngine ''/out'' ''/tmp'')\<lparr>kok_pythonExecutable := Some ''python3''\<rparr>"
    unfolding kokoro_initialize_def d by (simp add: new_KokoroEngine_def)
  have m: "macos_initialize (sample_macos_run TimedOut) (new_MacOSEngine ''/out'' ''/tmp'') =
             (None, sample_macos_engine)"
    by (simp add: macos_initialize_def sample_macos_run_def new_MacOSEngine_def
          sample_macos_engine_def)
  from initialize_outcomes [of "sample_kokoro_run TimedOut TimedOut"
      "new_KokoroEngine ''/out'' ''/tmp''" "sample_macos_run TimedOut"
      "new_MacOSEngine ''/out'' ''/tmp''"] v d k m
  show ?thesis by simp
qed


subsection \<open>The playback controller\<close>

lemma stop_inv: "player_inv pl \<Longrightarrow> player_inv (snd (snd (stop pl)))"
  by (auto simp: stop_def player_inv_def split: option.splits)

lemma on_close_inv: "player_inv (on_close pl)"
  by (simp add: on_close_def player_inv_def)

lemma play_inv: "player_inv pl \<Longrightarrow> player_inv (snd (snd (play audioPath spawned pl)))"
  by (auto simp: play_def stop_def player_inv_def Let_def split: option.splits)

lemma pause_inv: "player_inv pl \<Longrightarrow> player_inv (snd (snd (pause pl)))"
  by (auto simp: pause_def player_inv_def split: option.splits)

lemma resume_inv: "player_inv pl \<Longrightarrow> player_inv (snd (snd (resume pl)))"
  by (auto simp: resume_def player_inv_def split: option.splits)

lemma setMostRecentFile_inv: "player_inv pl \<Longrightarrow> player_inv (setMostRecentFile filePath pl)"
  by (simp add: setMostRecentFile_def player_inv_def)

lemma reachable_inv: "reachable pl \<Longrightarrow> player_inv pl"
proof (induction rule: reachable.induct)
  case r_new
  show ?case by (simp add: new_AudioPlayer_def player_inv_def)
next
  case (r_setMostRecentFile pl filePath)
  then show ?case by (simp add: setMostRecentFile_inv)
next
  case (r_play pl audioPath spawned)
  then show ?case by (simp add: play_inv)
next
  case (r_pause pl)
  then show ?case by (simp add: pause_inv)
next
  case (r_resume pl)
  then show ?case by (simp add: resume_inv)
next
  case (r_stop pl)
  then show ?case by (simp add: stop_inv)
next
  case (r_close pl)
  show ?case by (rule on_close_inv)
qed

text \<open>
  Claim C9. In every reachable state of the player, if no playback subprocess is
  tracked then no file is current and the paused flag is off; and the state after
  \<open>play\<close>, \<open>pause\<close>, \<open>resume\<close>, \<open>stop\<close> or the \<open>'close'\<close> callback satisfies this again.
\<close>

theorem player_state_consistent:
  "reachable pl \<Longrightarrow>
     player_inv pl \<and>
     player_inv (snd (snd (play audioPath spawned pl))) \<and>
     player_inv (snd (snd (pause pl))) \<and>
     player_inv (snd (snd (resume pl))) \<and>
     player_inv (snd (snd (stop pl))) \<and>
     player_inv (on_close pl)"
  by (simp add: reachable_inv play_inv pause_inv resume_inv stop_inv on_close_inv)

theorem player_state_consistent_witness:
  "reachable (on_close (snd (snd (pause (snd (snd
      (play (Some ''a.aiff'') (Some 7) new_AudioPlayer))))))) \<and>
   currentProcess (on_close (snd (snd (pause (snd (snd
      (play (Some ''a.aiff'') (Some 7) new_AudioPlayer))))))) = None \<and>
   currentFile (on_close (snd (snd (pause (snd (snd
      (play (Some ''a.aiff'') (Some 7) new_AudioPlayer))))))) = None \<and>
   \<not> isPaused (on_close (snd (snd (pause (snd (snd
      (play (Some ''a.aiff'') (Some 7) new_AudioPlayer)))))))"
proof -
  let ?pl = "on_close (snd (snd (pause (snd (snd
      (play (Some ''a.aiff'') (Some 7) new_AudioPlayer))))))"
  have r: "reachable ?pl"
    by (intro reachable.intros)
  have n: "currentProcess ?pl = None"
    by (simp add: on_close_def)
  from player_state_consistent [OF r, of None None] have "player_inv ?pl"
    by blast
  with n r show ?thesis
    unfolding player_inv_def by blast
qed

text \<open>
  Claim C10. \<open>pause\<close> on a player that is already paused changes nothing in its state
  and sends no signal, and it answers with the status \<open>stopped\<close>, although \<open>getStatus\<close>
  reports \<open>paused\<close> for that same state.
\<close>

theorem pause_when_paused:
  "currentProcess pl = Some p \<Longrightarrow> isPaused pl \<Longrightarrow>
     pause pl =
       (\<lparr>p_message = ''No active playback to pause'', p_status = ''stopped'', p_file = None\<rparr>,
        [], pl) \<and>
     s_status (getStatus pl) = ''paused''"
  by (simp add: pause_def getStatus_def)

theorem pause_when_paused_witness:
  "currentProcess (snd (snd (pause (snd (snd
      (play (Some ''a.aiff'') (Some 7) new_AudioPlayer)))))) = Some 7 \<and>
   isPaused (snd (snd (pause (snd (snd
      (play (Some ''a.aiff'') (Some 7) new_AudioPlayer)))))) \<and>
   p_status (fst (pause (snd (snd (pause (snd (snd
      (play (Some ''a.aiff'') (Some 7) new_AudioPlayer)))))))) = ''stopped'' \<and>
   snd (snd (pause (snd (snd (pause (snd (snd
      (play (Some ''a.aiff'') (Some 7) new_AudioPlayer)))))))) =
     snd (snd (pause (snd (snd (play (Some ''a.aiff'') (Some 7) new_AudioPlayer))))) \<and>
   s_status (getStatus (snd (snd (pause (snd (snd
      (play (Some ''a.aiff'') (Some 7) new_AudioPlayer))))))) = ''paused''"
proof -
  let ?pl = "snd (snd (pause (snd (snd (play (Some ''a.aiff'') (Some 7) new_AudioPlayer)))))"
  have c: "currentProcess ?pl = Some 7" and p: "isPaused ?pl"
    by (simp_all add: pause_def play_def stop_def new_AudioPlayer_def truthy_def Let_def)
  from pause_when_paused [OF c p] c p show ?thesis
    by simp
qed

end
